theory Spec2Isabelle
  imports Complex_Main "HOL-Library.Sublist"
begin

section \<open>JavaScript strings\<close>

text \<open>
  The string methods of \<^verbatim>\<open>src/extension.ts\<close>. \<^verbatim>\<open>s.replace(pat, rep)\<close> with a
  string pattern replaces the first occurrence of \<^verbatim>\<open>pat\<close> only, wherever it stands;
  the source only ever replaces by the empty string, so the special replacement
  patterns of JavaScript play no role.
\<close>

definition startsWith :: "string \<Rightarrow> string \<Rightarrow> bool" where
  "startsWith s pre = prefix pre s"

definition endsWith :: "string \<Rightarrow> string \<Rightarrow> bool" where
  "endsWith s suf = suffix suf s"

fun includes_str :: "string \<Rightarrow> string \<Rightarrow> bool" where
  "includes_str [] sub = (sub = [])"
| "includes_str (c # cs) sub = (prefix sub (c # cs) \<or> includes_str cs sub)"

fun replace :: "string \<Rightarrow> string \<Rightarrow> string \<Rightarrow> string" where
  "replace [] pat rep = (if pat = [] then rep else [])"
| "replace (c # cs) pat rep =
     (if prefix pat (c # cs) then rep @ drop (length pat) (c # cs)
      else c # replace cs pat rep)"


section \<open>Paths\<close>

text \<open>
  \<^verbatim>\<open>join\<close> of Node's \<^verbatim>\<open>path\<close> module, POSIX flavour (the source tests for a
  leading \<^verbatim>\<open>/\<close> and cuts \<^verbatim>\<open>workspaceRoot + "/"\<close>, so it is written for POSIX
  paths): the non-empty arguments are glued with \<^verbatim>\<open>/\<close> and the result is
  normalised. Normalisation drops empty and \<^verbatim>\<open>.\<close> segments, resolves \<^verbatim>\<open>..\<close>
  against the segment before it, and keeps a trailing separator.
\<close>

fun splitSegments :: "string \<Rightarrow> string \<Rightarrow> string list" where
  "splitSegments acc [] = [rev acc]"
| "splitSegments acc (c # cs) =
     (if c = CHR ''/'' then rev acc # splitSegments [] cs
      else splitSegments (c # acc) cs)"

fun normalizeSegments :: "bool \<Rightarrow> string list \<Rightarrow> string list \<Rightarrow> string list" where
  "normalizeSegments allowAboveRoot res [] = rev res"
| "normalizeSegments allowAboveRoot res (seg # segs) =
     (if seg = [] \<or> seg = ''.'' then normalizeSegments allowAboveRoot res segs
      else if seg = ''..'' then
        (case res of
           [] \<Rightarrow> normalizeSegments allowAboveRoot
                   (if allowAboveRoot then [''..''] else []) segs
         | r # rs \<Rightarrow>
             if r = ''..'' then normalizeSegments allowAboveRoot (''..'' # r # rs) segs
             else normalizeSegments allowAboveRoot rs segs)
      else normalizeSegments allowAboveRoot (seg # res) segs)"

fun joinSegments :: "string list \<Rightarrow> string" where
  "joinSegments [] = []"
| "joinSegments [seg] = seg"
| "joinSegments (seg # segs) = seg @ ''/'' @ joinSegments segs"

definition normalize :: "string \<Rightarrow> string" where
  "normalize p =
     (if p = [] then ''.''
      else
        let isAbsolute = (hd p = CHR ''/'');
            trailingSeparator = (last p = CHR ''/'');
            body = joinSegments (normalizeSegments (\<not> isAbsolute) [] (splitSegments [] p))
        in if body = [] then
             (if isAbsolute then ''/'' else if trailingSeparator then ''./'' else ''.'')
           else (if isAbsolute then ''/'' else []) @ body
                @ (if trailingSeparator then ''/'' else []))"

definition join :: "string \<Rightarrow> string \<Rightarrow> string" where
  "join a b =
     (if a = [] then (if b = [] then ''.'' else normalize b)
      else if b = [] then normalize a
      else normalize (a @ ''/'' @ b))"


section \<open>The file system\<close>

text \<open>
  What \<^verbatim>\<open>readdirSync\<close>, \<^verbatim>\<open>statSync\<close>, \<^verbatim>\<open>readFileSync\<close> and \<^verbatim>\<open>existsSync\<close>
  see: a tree of directory entries in enumeration order. A call that throws in Node
  is a constructor of its own: \<open>Broken\<close> is an entry whose \<^verbatim>\<open>statSync\<close> throws
  (a dangling link), \<open>UnreadableDir\<close> a directory whose \<^verbatim>\<open>readdirSync\<close> throws,
  \<open>UnreadableFile\<close> a file whose \<^verbatim>\<open>readFileSync\<close> throws.
\<close>

datatype fsnode =
    File string
  | UnreadableFile
  | Dir "(string \<times> fsnode) list"
  | UnreadableDir
  | Broken

text \<open>
  How the operating system finds the node a path names, which is not how \<^verbatim>\<open>join\<close>
  normalises a path: every segment is looked up in turn, so a segment that is followed
  by a separator must name a directory (also when \<^verbatim>\<open>..\<close> comes next, or when it is
  the last segment and a separator ends the path), \<^verbatim>\<open>..\<close> steps to the directory
  above, which for the root is the root, and an empty path names nothing. The first
  argument of \<open>walkPath\<close> holds the node reached and the directories above it. Paths
  are taken from the root, as the workspace root is absolute; the tree holds nothing
  below a directory that cannot be read, so no path leads through one.
\<close>

fun walkPath :: "fsnode list \<Rightarrow> string list \<Rightarrow> fsnode option" where
  "walkPath [] segs = None"
| "walkPath (cur # up) [] = Some cur"
| "walkPath (cur # up) (seg # segs) =
     (case cur of
        Dir entries \<Rightarrow>
          if seg = [] \<or> seg = ''.'' then walkPath (cur # up) segs
          else if seg = ''..'' then walkPath (if up = [] then [cur] else up) segs
          else (case map_of entries seg of
                  None \<Rightarrow> None
                | Some n \<Rightarrow> walkPath (n # cur # up) segs)
      | _ \<Rightarrow> None)"

definition resolve :: "fsnode \<Rightarrow> string \<Rightarrow> fsnode option" where
  "resolve fs p = (if p = [] then None else walkPath [fs] (splitSegments [] p))"

definition existsSync :: "fsnode \<Rightarrow> string \<Rightarrow> bool" where
  "existsSync fs p =
     (case resolve fs p of None \<Rightarrow> False | Some Broken \<Rightarrow> False | Some n \<Rightarrow> True)"

text \<open>A thrown JavaScript value: an \<^verbatim>\<open>Error\<close> with its message, or anything else.\<close>

datatype thrown = JsError string | NonError

definition errorMessage :: "thrown \<Rightarrow> string" where
  "errorMessage e = (case e of JsError m \<Rightarrow> m | NonError \<Rightarrow> ''Unknown error'')"

text \<open>The three reads of one node, each with the cases in which Node throws.\<close>

definition statIsDirectory :: "fsnode \<Rightarrow> thrown + bool" where
  "statIsDirectory n =
     (case n of
        File content \<Rightarrow> Inr False
      | UnreadableFile \<Rightarrow> Inr False
      | Dir es \<Rightarrow> Inr True
      | UnreadableDir \<Rightarrow> Inr True
      | Broken \<Rightarrow> Inl (JsError ''ENOENT: no such file or directory, stat''))"

definition readNode :: "fsnode \<Rightarrow> thrown + string" where
  "readNode n =
     (case n of
        File content \<Rightarrow> Inr content
      | UnreadableFile \<Rightarrow> Inl (JsError ''EACCES: permission denied, open'')
      | Dir es \<Rightarrow> Inl (JsError ''EISDIR: illegal operation on a directory, read'')
      | UnreadableDir \<Rightarrow> Inl (JsError ''EISDIR: illegal operation on a directory, read'')
      | Broken \<Rightarrow> Inl (JsError ''ENOENT: no such file or directory, open''))"

definition readFileSync :: "fsnode \<Rightarrow> string \<Rightarrow> thrown + string" where
  "readFileSync fs p =
     (case resolve fs p of
        None \<Rightarrow> Inl (JsError ''ENOENT: no such file or directory, open'')
      | Some n \<Rightarrow> readNode n)"


section \<open>JavaScript values\<close>

text \<open>
  The values that travel in messages, sit in the data cache and reach helpers:
  \<^verbatim>\<open>undefined\<close>, \<^verbatim>\<open>null\<close>, the primitives, and objects as their own enumerable
  properties in insertion order. An array is an object whose keys are its indices; the
  engine instance is an object whose own properties are not modelled. Numbers are the
  finite ones a JSON text can denote. Objects are compared by their properties.
\<close>

datatype objkind = PlainObject | ArrayObject | EngineObject

datatype jsvalue =
    JUndefined
  | JNull
  | JBool bool
  | JNum rat
  | JStr string
  | JObj objkind "(string \<times> jsvalue) list"

definition emptyObject :: jsvalue where
  "emptyObject = JObj PlainObject []"

definition handlebars :: jsvalue where
  "handlebars = JObj EngineObject []"

fun truthy :: "jsvalue \<Rightarrow> bool" where
  "truthy JUndefined = False"
| "truthy JNull = False"
| "truthy (JBool b) = b"
| "truthy (JNum n) = (n \<noteq> 0)"
| "truthy (JStr s) = (s \<noteq> [])"
| "truthy (JObj k props) = True"

text \<open>\<^verbatim>\<open>a || b\<close>\<close>

definition js_or :: "jsvalue \<Rightarrow> jsvalue \<Rightarrow> jsvalue" where
  "js_or a b = (if truthy a then a else b)"


section \<open>The preview provider\<close>

text \<open>
  The settings as \<^verbatim>\<open>config.get\<close> returns them (\<open>None\<close> for \<^verbatim>\<open>undefined\<close>), and
  \<^verbatim>\<open>getConfiguration\<close>, which supplies the defaults.
\<close>

record settings =
  templateDirectoriesSetting :: "string list option"
  partialsDirectoriesSetting :: "string list option"
  customHelpersFileSetting :: "string option"

record configuration =
  templateDirectories :: "string list"
  partialsDirectories :: "string list"
  customHelpersFile :: string

definition getConfiguration :: "settings \<Rightarrow> configuration" where
  "getConfiguration s =
     \<lparr> templateDirectories =
         (case templateDirectoriesSetting s of
            None \<Rightarrow> [''templates'', ''src/templates'', ''views'']
          | Some dirs \<Rightarrow> dirs),
       partialsDirectories =
         (case partialsDirectoriesSetting s of None \<Rightarrow> [] | Some dirs \<Rightarrow> dirs),
       customHelpersFile =
         (case customHelpersFileSetting s of None \<Rightarrow> [] | Some f \<Rightarrow> f) \<rparr>"

record templateRecord =
  name :: string
  directory :: string
  fullPath :: string

datatype message =
    Templates "templateRecord list"
  | Rendered string
  | ErrorMessage string
  | TemplateData jsvalue
  | TemplateDataCleared
  | PartialsRegistered
  | AutoRerender

datatype watcherKind = TemplateWatcher | PartialsWatcher

datatype watcher = Watcher watcherKind string

text \<open>
  The provider's fields, the engine's global partial table, and what surrounds them:
  the settings and the file system (read, never written) and the messages posted to
  the webview, oldest first.
\<close>

record provider =
  workspaceRoot :: string
  vscodeSettings :: settings
  fileSystem :: fsnode
  panel :: bool
  posted :: "message list"
  watchers :: "watcher list"
  templateDataCache :: "string \<rightharpoonup> jsvalue"
  partialTable :: "string \<rightharpoonup> string"

text \<open>
  \<^verbatim>\<open>dir.startsWith("/") ? dir : join(this._workspaceRoot, dir)\<close>, which the source
  writes out at each use.
\<close>

definition resolveDirectory :: "string \<Rightarrow> string \<Rightarrow> string" where
  "resolveDirectory ws dir = (if startsWith dir ''/'' then dir else join ws dir)"

definition getTemplateDirectories :: "provider \<Rightarrow> string list" where
  "getTemplateDirectories st =
     filter (existsSync (fileSystem st))
       (map (resolveDirectory (workspaceRoot st))
          (templateDirectories (getConfiguration (vscodeSettings st))))"

definition getPartialsDirectories :: "provider \<Rightarrow> string list" where
  "getPartialsDirectories st =
     (let config = getConfiguration (vscodeSettings st);
          partialsDirs =
            (if length (partialsDirectories config) > 0 then partialsDirectories config
             else templateDirectories config)
      in filter (existsSync (fileSystem st))
           (map (resolveDirectory (workspaceRoot st)) partialsDirs))"


subsection \<open>The template data cache\<close>

definition getTemplateDataKey :: "provider \<Rightarrow> string \<Rightarrow> string" where
  "getTemplateDataKey st templateName = workspaceRoot st @ '':'' @ templateName"

definition saveTemplateData :: "string \<Rightarrow> jsvalue \<Rightarrow> provider \<Rightarrow> provider" where
  "saveTemplateData templateName data st =
     st\<lparr>templateDataCache :=
          (templateDataCache st)(getTemplateDataKey st templateName \<mapsto> data)\<rparr>"

text \<open>\<^verbatim>\<open>Map.get\<close> answers \<^verbatim>\<open>undefined\<close> for a key that is not there.\<close>

definition mapGet :: "(string \<rightharpoonup> jsvalue) \<Rightarrow> string \<Rightarrow> jsvalue" where
  "mapGet m k = (case m k of None \<Rightarrow> JUndefined | Some v \<Rightarrow> v)"

definition getTemplateData :: "provider \<Rightarrow> string \<Rightarrow> jsvalue" where
  "getTemplateData st templateName =
     js_or (mapGet (templateDataCache st) (getTemplateDataKey st templateName)) emptyObject"

definition clearTemplateData :: "string \<Rightarrow> provider \<Rightarrow> provider" where
  "clearTemplateData templateName st =
     st\<lparr>templateDataCache :=
          (templateDataCache st)(getTemplateDataKey st templateName := None)\<rparr>"


subsection \<open>Registering partials\<close>

text \<open>
  \<^verbatim>\<open>registerPartialsRecursively\<close>: the first equation is a \<^verbatim>\<open>readdirSync\<close> that
  returns, the second one that throws into the \<^verbatim>\<open>catch\<close>. \<open>forEachPartial\<close> is the
  \<^verbatim>\<open>files.forEach\<close> callback over the entries left: a \<^verbatim>\<open>statSync\<close> or
  \<^verbatim>\<open>readFileSync\<close> that throws leaves the loop for the \<^verbatim>\<open>catch\<close> of this
  directory, so the entries after it are not visited; what was registered stays.
  \<^verbatim>\<open>handlebars.registerPartial\<close> assigns the text to the property of that name of
  the engine's table, a plain object: the assignment stores the text under every name
  but \<^verbatim>\<open>__proto__\<close>, where the setter of the prototype drops a string.
\<close>

definition registerPartial :: "string \<Rightarrow> string \<Rightarrow> (string \<rightharpoonup> string) \<Rightarrow> (string \<rightharpoonup> string)" where
  "registerPartial partialName content table =
     (if partialName = ''__proto__'' then table else table(partialName \<mapsto> content))"

definition registerPartialFile ::
  "string \<Rightarrow> string \<Rightarrow> string \<Rightarrow> string \<Rightarrow> (string \<rightharpoonup> string) \<Rightarrow> (string \<rightharpoonup> string)" where
  "registerPartialFile ws filePath file content table =
     (let relativePath = replace filePath (ws @ ''/'') [];
          partialName = replace relativePath ''.hbs'' [];
          table1 = registerPartial partialName content table;
          fileName = replace file ''.hbs'' []
      in if fileName \<noteq> partialName then registerPartial fileName content table1
         else table1)"

fun registerPartialsRecursively ::
    "string \<Rightarrow> string \<Rightarrow> fsnode \<Rightarrow> (string \<rightharpoonup> string) \<Rightarrow> (string \<rightharpoonup> string)"
  and forEachPartial ::
    "string \<Rightarrow> string \<Rightarrow> (string \<times> fsnode) list \<Rightarrow> (string \<rightharpoonup> string) \<Rightarrow> (string \<rightharpoonup> string)"
where
  "registerPartialsRecursively ws dir (Dir files) table = forEachPartial ws dir files table"
| "registerPartialsRecursively ws dir n table = table"
| "forEachPartial ws dir [] table = table"
| "forEachPartial ws dir ((file, n) # files) table =
     (let filePath = join dir file in
      case statIsDirectory n of
        Inl e \<Rightarrow> table
      | Inr isDirectory \<Rightarrow>
          if isDirectory then
            forEachPartial ws dir files (registerPartialsRecursively ws filePath n table)
          else if endsWith file ''.hbs'' then
            (case readNode n of
               Inl e \<Rightarrow> table
             | Inr content \<Rightarrow>
                 forEachPartial ws dir files (registerPartialFile ws filePath file content table))
          else forEachPartial ws dir files table)"

text \<open>
  \<^verbatim>\<open>registerPartials\<close>: every existing partials directory in turn, then the
  notification if there is a panel. A directory that cannot be resolved any more makes
  \<^verbatim>\<open>readdirSync\<close> throw into the \<^verbatim>\<open>catch\<close>.
\<close>

definition registerPartialsIn :: "provider \<Rightarrow> string \<Rightarrow> (string \<rightharpoonup> string) \<Rightarrow> (string \<rightharpoonup> string)" where
  "registerPartialsIn st dir table =
     (case resolve (fileSystem st) dir of
        None \<Rightarrow> table
      | Some n \<Rightarrow> registerPartialsRecursively (workspaceRoot st) dir n table)"

definition postMessage :: "message \<Rightarrow> provider \<Rightarrow> provider" where
  "postMessage m st = st\<lparr>posted := posted st @ [m]\<rparr>"

definition registerPartials :: "provider \<Rightarrow> provider" where
  "registerPartials st =
     (let st1 = st\<lparr>partialTable :=
                    fold (registerPartialsIn st) (getPartialsDirectories st) (partialTable st)\<rparr>
      in if panel st1 then postMessage PartialsRegistered st1 else st1)"


subsection \<open>Scanning for templates\<close>

text \<open>
  \<^verbatim>\<open>getTemplatesRecursively\<close> pushes onto the array it is given; here it returns the
  array. The shape is that of the partial walk, without a file read.
\<close>

definition templateRecordOf :: "string \<Rightarrow> string \<Rightarrow> string \<Rightarrow> templateRecord" where
  "templateRecordOf ws filePath baseDir =
     (let relativePath = replace filePath (baseDir @ ''/'') [];
          templateName = replace relativePath ''.hbs'' [];
          directoryName = replace baseDir (ws @ ''/'') []
      in \<lparr> name = templateName, directory = directoryName, fullPath = filePath \<rparr>)"

fun getTemplatesRecursively ::
    "string \<Rightarrow> string \<Rightarrow> fsnode \<Rightarrow> templateRecord list \<Rightarrow> string \<Rightarrow> templateRecord list"
  and forEachTemplate ::
    "string \<Rightarrow> string \<Rightarrow> (string \<times> fsnode) list \<Rightarrow> templateRecord list \<Rightarrow> string \<Rightarrow> templateRecord list"
where
  "getTemplatesRecursively ws dir (Dir files) templates baseDir =
     forEachTemplate ws dir files templates baseDir"
| "getTemplatesRecursively ws dir n templates baseDir = templates"
| "forEachTemplate ws dir [] templates baseDir = templates"
| "forEachTemplate ws dir ((file, n) # files) templates baseDir =
     (let filePath = join dir file in
      case statIsDirectory n of
        Inl e \<Rightarrow> templates
      | Inr isDirectory \<Rightarrow>
          if isDirectory then
            forEachTemplate ws dir files
              (getTemplatesRecursively ws filePath n templates baseDir) baseDir
          else if endsWith file ''.hbs'' then
            forEachTemplate ws dir files
              (templates @ [templateRecordOf ws filePath baseDir]) baseDir
          else forEachTemplate ws dir files templates baseDir)"

definition getTemplatesIn :: "provider \<Rightarrow> string \<Rightarrow> templateRecord list \<Rightarrow> templateRecord list" where
  "getTemplatesIn st dir templates =
     (case resolve (fileSystem st) dir of
        None \<Rightarrow> templates
      | Some n \<Rightarrow> getTemplatesRecursively (workspaceRoot st) dir n templates dir)"

definition getAvailableTemplates :: "provider \<Rightarrow> templateRecord list" where
  "getAvailableTemplates st =
     filter (\<lambda>t. \<not> includes_str (name t) ''components/'')
       (fold (getTemplatesIn st) (getTemplateDirectories st) [])"


subsection \<open>Rendering\<close>

text \<open>
  The templating engine is not part of the repository: \<open>engine\<close> stands for
  \<^verbatim>\<open>handlebars.compile(templateContent)(data)\<close> under the partial table of the moment,
  and returns the markup or what was thrown. \<^verbatim>\<open>renderTemplate\<close> returns its result
  together with the provider, since the partials it registered stay registered when a
  later step throws.
\<close>

type_synonym engine = "(string \<rightharpoonup> string) \<Rightarrow> string \<Rightarrow> jsvalue \<Rightarrow> thrown + string"

definition renderTemplate ::
  "engine \<Rightarrow> provider \<Rightarrow> string \<Rightarrow> jsvalue \<Rightarrow> (thrown + string) \<times> provider" where
  "renderTemplate compileAndRun st templateName data =
     (case find (\<lambda>t. name t = templateName) (getAvailableTemplates st) of
        None \<Rightarrow> (Inl (JsError (''Template not found: '' @ templateName)), st)
      | Some template \<Rightarrow>
          (let st1 = registerPartials st in
           case readFileSync (fileSystem st1) (fullPath template) of
             Inl e \<Rightarrow> (Inl e, st1)
           | Inr templateContent \<Rightarrow>
               (compileAndRun (partialTable st1) templateContent data, st1)))"


subsection \<open>Messages from the webview\<close>

datatype request =
    GetTemplates
  | RenderTemplate string jsvalue
  | GetTemplateData string
  | ClearTemplateData string
  | OtherCommand

text \<open>
  \<^verbatim>\<open>this._panel!.webview.postMessage\<close>: the assertion is erased by the compiler, so
  without a panel the property read throws.
\<close>

definition postToPanel :: "message \<Rightarrow> provider \<Rightarrow> thrown + provider" where
  "postToPanel m st =
     (if panel st then Inr (postMessage m st)
      else Inl (JsError ''Cannot read properties of undefined''))"

text \<open>
  The callback given to \<^verbatim>\<open>onDidReceiveMessage\<close>; \<open>Inl\<close> is a rejected promise. In
  the \<^verbatim>\<open>renderTemplate\<close> case the \<^verbatim>\<open>catch\<close> also receives what the \<^verbatim>\<open>postMessage\<close>
  of the \<^verbatim>\<open>try\<close> block throws.
\<close>

definition onDidReceiveMessage :: "engine \<Rightarrow> provider \<Rightarrow> request \<Rightarrow> thrown + provider" where
  "onDidReceiveMessage compileAndRun st message =
     (case message of
        GetTemplates \<Rightarrow> postToPanel (Templates (getAvailableTemplates st)) st
      | RenderTemplate templateName data \<Rightarrow>
          (case renderTemplate compileAndRun st templateName (js_or data emptyObject) of
             (Inl e, st1) \<Rightarrow> postToPanel (ErrorMessage (errorMessage e)) st1
           | (Inr html, st1) \<Rightarrow>
               (let st2 = saveTemplateData templateName (js_or data emptyObject) st1 in
                case postToPanel (Rendered html) st2 of
                  Inl e \<Rightarrow> postToPanel (ErrorMessage (errorMessage e)) st2
                | Inr st3 \<Rightarrow> Inr st3))
      | GetTemplateData templateName \<Rightarrow>
          postToPanel (TemplateData (getTemplateData st templateName)) st
      | ClearTemplateData templateName \<Rightarrow>
          postToPanel TemplateDataCleared (clearTemplateData templateName st)
      | OtherCommand \<Rightarrow> Inr st)"


subsection \<open>File watchers\<close>

definition autoRerender :: "provider \<Rightarrow> provider" where
  "autoRerender st = (if panel st then postMessage AutoRerender st else st)"

definition refreshTemplates :: "provider \<Rightarrow> provider" where
  "refreshTemplates st =
     (if panel st then postMessage (Templates (getAvailableTemplates st)) st else st)"

definition watchPattern :: "string \<Rightarrow> string \<Rightarrow> string" where
  "watchPattern ws dir = replace dir (ws @ ''/'') [] @ ''/**/*.hbs''"

text \<open>
  \<^verbatim>\<open>setupFileWatchers\<close> creates one watcher for each template directory, with the
  three callbacks of the first loop, and one for each partials directory that is not a
  template directory, with the callbacks of the second loop. A watcher is kept here as
  the loop that made it and its pattern.
\<close>

definition setupFileWatchers :: "provider \<Rightarrow> provider" where
  "setupFileWatchers st =
     (let templateDirs = getTemplateDirectories st;
          partialsDirs = getPartialsDirectories st
      in st\<lparr>watchers := watchers st
              @ map (\<lambda>dir. Watcher TemplateWatcher (watchPattern (workspaceRoot st) dir))
                  templateDirs
              @ map (\<lambda>dir. Watcher PartialsWatcher (watchPattern (workspaceRoot st) dir))
                  (filter (\<lambda>dir. dir \<notin> set templateDirs) partialsDirs)\<rparr>)"

fun onDidChange :: "watcher \<Rightarrow> provider \<Rightarrow> provider" where
  "onDidChange (Watcher TemplateWatcher pat) st =
     autoRerender (refreshTemplates (registerPartials st))"
| "onDidChange (Watcher PartialsWatcher pat) st = registerPartials st"

fun onDidCreate :: "watcher \<Rightarrow> provider \<Rightarrow> provider" where
  "onDidCreate (Watcher TemplateWatcher pat) st = refreshTemplates (registerPartials st)"
| "onDidCreate (Watcher PartialsWatcher pat) st = registerPartials st"

fun onDidDelete :: "watcher \<Rightarrow> provider \<Rightarrow> provider" where
  "onDidDelete (Watcher TemplateWatcher pat) st = refreshTemplates (registerPartials st)"
| "onDidDelete (Watcher PartialsWatcher pat) st = registerPartials st"


section \<open>Custom helpers\<close>

text \<open>
  Reading and writing a property, as the adapter does it. The two names the source
  uses, \<^verbatim>\<open>data\<close> and \<^verbatim>\<open>hbs\<close>, are properties of no prototype, so a read on a
  primitive or on an object without the key answers \<^verbatim>\<open>undefined\<close>. The file is a
  module, hence strict code: a write to a primitive throws. A write to an object keeps
  the position of a key that is there and appends a new one. The messages are those of
  the V8 engine; the one for a write to a primitive ends there with the primitive's
  value, which is left out here.
\<close>

fun setOwn :: "string \<Rightarrow> jsvalue \<Rightarrow> (string \<times> jsvalue) list \<Rightarrow> (string \<times> jsvalue) list" where
  "setOwn k v [] = [(k, v)]"
| "setOwn k v ((k', v') # props) =
     (if k' = k then (k, v) # props else (k', v') # setOwn k v props)"

definition quoted :: "string \<Rightarrow> string" where
  "quoted k = [CHR 0x27] @ k @ [CHR 0x27]"

definition typeofName :: "jsvalue \<Rightarrow> string" where
  "typeofName v =
     (case v of
        JUndefined \<Rightarrow> ''undefined''
      | JNull \<Rightarrow> ''object''
      | JBool b \<Rightarrow> ''boolean''
      | JNum n \<Rightarrow> ''number''
      | JStr s \<Rightarrow> ''string''
      | JObj kind props \<Rightarrow> ''object'')"

definition getProp :: "jsvalue \<Rightarrow> string \<Rightarrow> thrown + jsvalue" where
  "getProp v k =
     (case v of
        JUndefined \<Rightarrow>
          Inl (JsError (''Cannot read properties of undefined (reading '' @ quoted k @ '')''))
      | JNull \<Rightarrow>
          Inl (JsError (''Cannot read properties of null (reading '' @ quoted k @ '')''))
      | JObj kind props \<Rightarrow>
          Inr (case map_of props k of None \<Rightarrow> JUndefined | Some x \<Rightarrow> x)
      | _ \<Rightarrow> Inr JUndefined)"

definition setProp :: "jsvalue \<Rightarrow> string \<Rightarrow> jsvalue \<Rightarrow> thrown + jsvalue" where
  "setProp v k x =
     (case v of
        JUndefined \<Rightarrow>
          Inl (JsError (''Cannot set properties of undefined (setting '' @ quoted k @ '')''))
      | JNull \<Rightarrow>
          Inl (JsError (''Cannot set properties of null (setting '' @ quoted k @ '')''))
      | JObj kind props \<Rightarrow> Inr (JObj kind (setOwn k x props))
      | _ \<Rightarrow> Inl (JsError (''Cannot create property '' @ quoted k @ '' on '' @ typeofName v)))"

text \<open>A helper: from \<^verbatim>\<open>this\<close> and the arguments to a result or a thrown value.\<close>

type_synonym helperFunction = "jsvalue \<Rightarrow> jsvalue list \<Rightarrow> thrown + jsvalue"

text \<open>
  The function that \<^verbatim>\<open>loadCustomHelpers\<close> registers in place of \<open>helper\<close>.
  \<^verbatim>\<open>args.at(-1)\<close> of an empty array is \<^verbatim>\<open>undefined\<close>. \<^verbatim>\<open>options.data.hbs = handlebars\<close>
  changes the object that \<^verbatim>\<open>options.data\<close> refers to, so the changed object is put
  back under \<^verbatim>\<open>data\<close>, and the helper receives the arguments with the changed options
  last.
\<close>

definition helperAdapter :: "helperFunction \<Rightarrow> helperFunction" where
  "helperAdapter helper this args =
     (let options = (if args = [] then JUndefined else last args) in
      case getProp options ''data'' of
        Inl e \<Rightarrow> Inl e
      | Inr d \<Rightarrow>
          (case (if \<not> truthy d then setProp options ''data'' emptyObject else Inr options) of
             Inl e \<Rightarrow> Inl e
           | Inr options1 \<Rightarrow>
               (case getProp options1 ''data'' of
                  Inl e \<Rightarrow> Inl e
                | Inr d1 \<Rightarrow>
                    (case setProp d1 ''hbs'' handlebars of
                       Inl e \<Rightarrow> Inl e
                     | Inr d2 \<Rightarrow>
                         (case setProp options1 ''data'' d2 of
                            Inl e \<Rightarrow> Inl e
                          | Inr options2 \<Rightarrow> helper this (butlast args @ [options2]))))))"

text \<open>
  What a loaded module can export: a function, an object with its entries, or any
  other value. \<open>importModule\<close> stands for the eviction from the \<^verbatim>\<open>require\<close> cache
  followed by \<^verbatim>\<open>await import(helpersPath)\<close>: it returns the entries of the module
  namespace object, or what either step threw.
\<close>

datatype exported =
    ExportedFunction "jsvalue \<Rightarrow> jsvalue list \<Rightarrow> thrown + jsvalue"
  | ExportedObject "(string \<times> exported) list"
  | ExportedValue jsvalue

fun exportedTruthy :: "exported \<Rightarrow> bool" where
  "exportedTruthy (ExportedFunction f) = True"
| "exportedTruthy (ExportedObject entries) = True"
| "exportedTruthy (ExportedValue v) = truthy v"

text \<open>\<^verbatim>\<open>typeof helpers === "object" && helpers !== null\<close>\<close>

fun isNonNullObject :: "exported \<Rightarrow> bool" where
  "isNonNullObject (ExportedFunction f) = False"
| "isNonNullObject (ExportedObject entries) = True"
| "isNonNullObject (ExportedValue (JObj kind props)) = True"
| "isNonNullObject (ExportedValue v) = False"

text \<open>\<^verbatim>\<open>Object.entries\<close>\<close>

fun objectEntries :: "exported \<Rightarrow> (string \<times> exported) list" where
  "objectEntries (ExportedObject entries) = entries"
| "objectEntries (ExportedValue (JObj kind props)) = map (\<lambda>(k, v). (k, ExportedValue v)) props"
| "objectEntries e = []"

datatype notification =
    RegisteredCustomHelpers "string list"
  | NoValidHelperFunctions
  | ShouldExportAnObject
  | FailedToLoad string

datatype severity = Information | Warning | Error

fun severityOf :: "notification \<Rightarrow> severity" where
  "severityOf (RegisteredCustomHelpers names) = Information"
| "severityOf NoValidHelperFunctions = Warning"
| "severityOf ShouldExportAnObject = Error"
| "severityOf (FailedToLoad m) = Error"

datatype consoleLine = ConsoleLog string | ConsoleWarn string | ConsoleError string

text \<open>
  What loading helpers acts on: the engine's helper table, the notifications shown by
  \<^verbatim>\<open>vscode.window\<close> and the console, both oldest first.
\<close>

record helperHost =
  helperTable :: "string \<rightharpoonup> helperFunction"
  notifications :: "notification list"
  console :: "consoleLine list"

definition showMessage :: "notification \<Rightarrow> helperHost \<Rightarrow> helperHost" where
  "showMessage n host = host\<lparr>notifications := notifications host @ [n]\<rparr>"

definition consoleWrite :: "consoleLine \<Rightarrow> helperHost \<Rightarrow> helperHost" where
  "consoleWrite l host = host\<lparr>console := console host @ [l]\<rparr>"

text \<open>
  The callback of \<^verbatim>\<open>Object.entries(helpers).forEach\<close>, on the host and the
  \<^verbatim>\<open>registeredHelpers\<close> array.
\<close>

fun registerEntry ::
  "string \<times> exported \<Rightarrow> helperHost \<times> string list \<Rightarrow> helperHost \<times> string list" where
  "registerEntry (helperName, ExportedFunction helper) (host, registeredHelpers) =
     (consoleWrite (ConsoleLog (''[handlebars-preview] Registered custom helper: '' @ helperName))
        (host\<lparr>helperTable := (helperTable host)(helperName \<mapsto> helperAdapter helper)\<rparr>),
      registeredHelpers @ [helperName])"
| "registerEntry (helperName, e) (host, registeredHelpers) = (host, registeredHelpers)"

text \<open>
  \<^verbatim>\<open>module.default || module\<close>, the value the source calls \<^verbatim>\<open>helpers\<close>: the default
  export when there is a truthy one, the module namespace object otherwise.
\<close>

definition defaultOrModule :: "(string \<times> exported) list \<Rightarrow> exported" where
  "defaultOrModule moduleEntries =
     (case map_of moduleEntries ''default'' of
        Some d \<Rightarrow> if exportedTruthy d then d else ExportedObject moduleEntries
      | None \<Rightarrow> ExportedObject moduleEntries)"

text \<open>
  The \<^verbatim>\<open>try\<close> block of \<^verbatim>\<open>loadCustomHelpers\<close>. The import is its only step that
  can throw, and it comes before every write.
\<close>

definition tryLoadCustomHelpers ::
  "(string \<Rightarrow> thrown + (string \<times> exported) list) \<Rightarrow> provider \<Rightarrow> helperHost \<Rightarrow> thrown + helperHost" where
  "tryLoadCustomHelpers importModule st host =
     (let config = getConfiguration (vscodeSettings st);
          helpersPath = resolveDirectory (workspaceRoot st) (customHelpersFile config)
      in if \<not> existsSync (fileSystem st) helpersPath then
           Inr (consoleWrite (ConsoleWarn (''[handlebars-preview] Custom helpers file not found: '' @ helpersPath)) host)
         else
           (case importModule helpersPath of
              Inl e \<Rightarrow> Inl e
            | Inr moduleEntries \<Rightarrow>
                (let helpers = defaultOrModule moduleEntries
                 in if isNonNullObject helpers then
                      (case fold registerEntry (objectEntries helpers) (host, []) of
                         (host1, registeredHelpers) \<Rightarrow>
                           if length registeredHelpers > 0 then
                             Inr (showMessage (RegisteredCustomHelpers registeredHelpers) host1)
                           else Inr (showMessage NoValidHelperFunctions host1))
                    else
                      Inr (consoleWrite
                             (ConsoleWarn (''[handlebars-preview] Custom helpers file should export an object with helper functions: '' @ helpersPath))
                             (showMessage ShouldExportAnObject host)))))"

text \<open>\<^verbatim>\<open>loadCustomHelpers\<close>; \<open>Inl\<close> is a rejected promise.\<close>

definition loadCustomHelpers ::
  "(string \<Rightarrow> thrown + (string \<times> exported) list) \<Rightarrow> provider \<Rightarrow> helperHost \<Rightarrow> thrown + helperHost" where
  "loadCustomHelpers importModule st host =
     (if customHelpersFile (getConfiguration (vscodeSettings st)) = [] then
        Inr (consoleWrite (ConsoleLog ''[handlebars-preview] No custom helpers file configured'') host)
      else
        (case tryLoadCustomHelpers importModule st host of
           Inl e \<Rightarrow>
             Inr (consoleWrite (ConsoleError ''[handlebars-preview] Error loading custom helpers:'')
                    (showMessage (FailedToLoad (errorMessage e)) host))
         | Inr host1 \<Rightarrow> Inr host1))"

text \<open>\<^verbatim>\<open>registerHelpers\<close>, with its \<^verbatim>\<open>.catch\<close> on the promise.\<close>

definition registerHelpers ::
  "(string \<Rightarrow> thrown + (string \<times> exported) list) \<Rightarrow> provider \<Rightarrow> helperHost \<Rightarrow> helperHost" where
  "registerHelpers importModule st host =
     (case loadCustomHelpers importModule st host of
        Inl e \<Rightarrow> consoleWrite (ConsoleError ''[handlebars-preview] Error loading custom helpers:'') host
      | Inr host1 \<Rightarrow> host1)"


section \<open>A workspace to compute on\<close>

text \<open>
  \<^verbatim>\<open>/ws\<close> holds a template directory with a page, a component and a nested template,
  and a directory of partials; the settings name a template directory that does not
  exist as well.
\<close>

definition demoTemplates :: fsnode where
  "demoTemplates =
     Dir [(''page.hbs'', File ''<h1>page</h1>''),
          (''components'', Dir [(''button.hbs'', File ''<button/>'')]),
          (''a'', Dir [(''b'', Dir [(''c.hbs'', File ''C'')])])]"

definition demoFileSystem :: fsnode where
  "demoFileSystem =
     Dir [(''ws'',
       Dir [(''templates'', demoTemplates),
            (''partials'',
              Dir [(''plan-name.hbs'', File ''plan''),
                   (''notes.txt'', File ''n'')]),
            (''helpers.js'', File ''module.exports = 42'')])]"

definition demoSettings :: settings where
  "demoSettings =
     \<lparr> templateDirectoriesSetting = Some [''templates'', ''missing''],
       partialsDirectoriesSetting = None,
       customHelpersFileSetting = None \<rparr>"

definition demoProvider :: provider where
  "demoProvider =
     \<lparr> workspaceRoot = ''/ws'',
       vscodeSettings = demoSettings,
       fileSystem = demoFileSystem,
       panel = True,
       posted = [],
       watchers = [],
       templateDataCache = Map.empty,
       partialTable = Map.empty \<rparr>"

text \<open>The engine on a template without tags: the text itself, whatever the data.\<close>

definition plainTextEngine :: engine where
  "plainTextEngine partials templateContent data = Inr templateContent"


definition demoProviderWithPartials :: provider where
  "demoProviderWithPartials =
     demoProvider\<lparr>vscodeSettings :=
       demoSettings\<lparr>partialsDirectoriesSetting := Some [''partials'']\<rparr>\<rparr>"

text \<open>
  A helper as in the spec's example, \<^verbatim>\<open>greet: (n) => "hi " + n\<close>; a module whose
  default export is the number 42; the same workspace with that module configured; a host
  on which nothing is registered yet.
\<close>

definition greet :: helperFunction where
  "greet this args =
     (case args of
        JStr n # rest \<Rightarrow> Inr (JStr (''hi '' @ n))
      | _ \<Rightarrow> Inr (JStr ''hi undefined''))"

definition importNumber :: "string \<Rightarrow> thrown + (string \<times> exported) list" where
  "importNumber helpersPath = Inr [(''default'', ExportedValue (JNum 42))]"

definition demoProviderWithHelpers :: provider where
  "demoProviderWithHelpers =
     demoProvider\<lparr>vscodeSettings :=
       demoSettings\<lparr>customHelpersFileSetting := Some ''helpers.js''\<rparr>\<rparr>"

definition demoProviderMissingHelpers :: provider where
  "demoProviderMissingHelpers =
     demoProvider\<lparr>vscodeSettings :=
       demoSettings\<lparr>customHelpersFileSetting := Some ''nowhere.js''\<rparr>\<rparr>"

definition freshHost :: helperHost where
  "freshHost = \<lparr> helperTable = Map.empty, notifications = [], console = [] \<rparr>"

text \<open>The same workspace with the template directories named in another way.\<close>

definition demoProviderReordered :: provider where
  "demoProviderReordered =
     demoProvider\<lparr>vscodeSettings :=
       demoSettings\<lparr>templateDirectoriesSetting :=
         Some [''nowhere'', ''./templates'', ''templates'']\<rparr>\<rparr>"


section \<open>The calls of the partial walk\<close>

text \<open>
  The calls of \<^verbatim>\<open>handlebars.registerPartial\<close> that the walk makes, in the order it
  makes them, as pairs of name and text: the walk again, collecting the calls in place
  of changing the table.
\<close>

definition fileRegistrations :: "string \<Rightarrow> string \<Rightarrow> string \<Rightarrow> string \<Rightarrow> (string \<times> string) list" where
  "fileRegistrations ws filePath file content =
     (let relativePath = replace filePath (ws @ ''/'') [];
          partialName = replace relativePath ''.hbs'' [];
          fileName = replace file ''.hbs'' []
      in (partialName, content)
         # (if fileName \<noteq> partialName then [(fileName, content)] else []))"

fun partialRegistrations :: "string \<Rightarrow> string \<Rightarrow> fsnode \<Rightarrow> (string \<times> string) list"
  and forEachRegistrations :: "string \<Rightarrow> string \<Rightarrow> (string \<times> fsnode) list \<Rightarrow> (string \<times> string) list"
where
  "partialRegistrations ws dir (Dir files) = forEachRegistrations ws dir files"
| "partialRegistrations ws dir n = []"
| "forEachRegistrations ws dir [] = []"
| "forEachRegistrations ws dir ((file, n) # files) =
     (let filePath = join dir file in
      case statIsDirectory n of
        Inl e \<Rightarrow> []
      | Inr isDirectory \<Rightarrow>
          if isDirectory then
            partialRegistrations ws filePath n @ forEachRegistrations ws dir files
          else if endsWith file ''.hbs'' then
            (case readNode n of
               Inl e \<Rightarrow> []
             | Inr content \<Rightarrow>
                 fileRegistrations ws filePath file content @ forEachRegistrations ws dir files)
          else forEachRegistrations ws dir files)"

definition registrationsIn :: "provider \<Rightarrow> string \<Rightarrow> (string \<times> string) list" where
  "registrationsIn st dir =
     (case resolve (fileSystem st) dir of
        None \<Rightarrow> []
      | Some n \<Rightarrow> partialRegistrations (workspaceRoot st) dir n)"

definition allPartialRegistrations :: "provider \<Rightarrow> (string \<times> string) list" where
  "allPartialRegistrations st = concat (map (registrationsIn st) (getPartialsDirectories st))"

definition applyRegistrations :: "(string \<times> string) list \<Rightarrow> (string \<rightharpoonup> string) \<Rightarrow> (string \<rightharpoonup> string)" where
  "applyRegistrations regs table = fold (\<lambda>(k, v). registerPartial k v) regs table"

text \<open>
  The files a recursive descent meets, whatever the order of the entries:
  \<open>hbsFileUnder dir tree filePath file n\<close> says that below the directory \<open>tree\<close> at
  path \<open>dir\<close> there is an entry \<open>file\<close> that is not a directory, has the template
  extension and sits at \<open>filePath\<close>; \<open>n\<close> is the entry. A tree is \<open>readable\<close> when no
  \<^verbatim>\<open>statSync\<close> and no \<^verbatim>\<open>readFileSync\<close> in it throws.
\<close>

inductive hbsFileUnder :: "string \<Rightarrow> fsnode \<Rightarrow> string \<Rightarrow> string \<Rightarrow> fsnode \<Rightarrow> bool" where
  here: "(file, n) \<in> set files \<Longrightarrow> statIsDirectory n = Inr False \<Longrightarrow> endsWith file ''.hbs''
         \<Longrightarrow> hbsFileUnder dir (Dir files) (join dir file) file n"
| below: "(sub, d) \<in> set files \<Longrightarrow> hbsFileUnder (join dir sub) d filePath file n
         \<Longrightarrow> hbsFileUnder dir (Dir files) filePath file n"

fun readable :: "fsnode \<Rightarrow> bool" where
  "readable (File content) = True"
| "readable UnreadableFile = False"
| "readable (Dir files) = list_all (\<lambda>(file, n). readable n) files"
| "readable UnreadableDir = True"
| "readable Broken = False"

text \<open>
  Two trees with the same entries, enumerated in whatever order at every level: the
  same file system state seen through two runs of \<^verbatim>\<open>readdirSync\<close>.
\<close>

inductive sameEntries :: "fsnode \<Rightarrow> fsnode \<Rightarrow> bool" where
  sameFile: "sameEntries (File content) (File content)"
| unreadableFile: "sameEntries UnreadableFile UnreadableFile"
| unreadableDir: "sameEntries UnreadableDir UnreadableDir"
| broken: "sameEntries Broken Broken"
| sameDir: "\<forall>(fl, n) \<in> set files. \<exists>n'. (fl, n') \<in> set files' \<and> sameEntries n n'
        \<Longrightarrow> \<forall>(fl, n') \<in> set files'. \<exists>n. (fl, n) \<in> set files \<and> sameEntries n n'
        \<Longrightarrow> sameEntries (Dir files) (Dir files')"

text \<open>A tree is \<open>statable\<close> when no \<^verbatim>\<open>statSync\<close> in it throws.\<close>

fun statable :: "fsnode \<Rightarrow> bool" where
  "statable (File content) = True"
| "statable UnreadableFile = True"
| "statable (Dir files) = list_all (\<lambda>(file, n). statable n) files"
| "statable UnreadableDir = True"
| "statable Broken = False"

text \<open>\<^verbatim>\<open>typeof helper === "function"\<close>\<close>

fun isCallable :: "exported \<Rightarrow> bool" where
  "isCallable (ExportedFunction f) = True"
| "isCallable e = False"

text \<open>
  A module whose default export is \<^verbatim>\<open>null\<close>. A template directory with a template
  and a dangling link, in the two orders in which it can be enumerated, and the example
  workspace with that directory for its templates.
\<close>

definition importNull :: "string \<Rightarrow> thrown + (string \<times> exported) list" where
  "importNull helpersPath = Inr [(''default'', ExportedValue JNull)]"

definition demoDangling :: fsnode where
  "demoDangling = Dir [(''a.hbs'', File ''A''), (''dangling'', Broken)]"

definition demoDanglingReversed :: fsnode where
  "demoDanglingReversed = Dir [(''dangling'', Broken), (''a.hbs'', File ''A'')]"

definition demoProviderDangling :: provider where
  "demoProviderDangling =
     demoProvider\<lparr>fileSystem := Dir [(''ws'', Dir [(''templates'', demoDangling)])]\<rparr>"

definition demoProviderDanglingReversed :: provider where
  "demoProviderDanglingReversed =
     demoProvider\<lparr>fileSystem := Dir [(''ws'', Dir [(''templates'', demoDanglingReversed)])]\<rparr>"

text \<open>In a directory of a real file system no two entries have the same name.\<close>

fun distinctNames :: "fsnode \<Rightarrow> bool" where
  "distinctNames (Dir files) =
     (distinct (map fst files) \<and> list_all (\<lambda>(file, n). distinctNames n) files)"
| "distinctNames n = True"

text \<open>
  The template directory of the example, enumerated backwards, and the example workspace
  with every directory enumerated backwards.
\<close>

definition demoTemplatesReversed :: fsnode where
  "demoTemplatesReversed =
     Dir [(''a'', Dir [(''b'', Dir [(''c.hbs'', File ''C'')])]),
          (''components'', Dir [(''button.hbs'', File ''<button/>'')]),
          (''page.hbs'', File ''<h1>page</h1>'')]"

definition demoProviderReversed :: provider where
  "demoProviderReversed =
     demoProvider\<lparr>fileSystem :=
       Dir [(''ws'',
         Dir [(''helpers.js'', File ''module.exports = 42''),
              (''partials'',
                Dir [(''notes.txt'', File ''n''),
                     (''plan-name.hbs'', File ''plan'')]),
              (''templates'', demoTemplatesReversed)])]\<rparr>"


section \<open>The template data cache\<close>

lemma truthy_iff: "truthy v \<longleftrightarrow> v \<notin> {JUndefined, JNull, JBool False, JNum 0, JStr []}"
  by (cases v) auto

text \<open>
  C9. \<^verbatim>\<open>clearTemplateData(name)\<close> removes the entry under the key
  \<^verbatim>\<open>workspaceRoot + ":" + name\<close> and leaves the others; \<^verbatim>\<open>getTemplateData(name)\<close> then
  returns the empty object, as it does for a name under whose key nothing is stored.
\<close>

theorem clearTemplateData_getTemplateData:
  "templateDataCache (clearTemplateData templateName st)
     = (templateDataCache st)(workspaceRoot st @ '':'' @ templateName := None)
   \<and> getTemplateData (clearTemplateData templateName st) templateName = JObj PlainObject []
   \<and> (templateDataCache st (workspaceRoot st @ '':'' @ other) = None
        \<longrightarrow> getTemplateData st other = JObj PlainObject [])"
  by (simp add: clearTemplateData_def getTemplateData_def getTemplateDataKey_def mapGet_def
      js_or_def emptyObject_def)

theorem clearTemplateData_getTemplateData_witness:
  "getTemplateData
     (clearTemplateData ''page'' (saveTemplateData ''page'' (JStr ''x'') demoProvider)) ''page''
     = JObj PlainObject []
   \<and> getTemplateData (saveTemplateData ''page'' (JStr ''x'') demoProvider) ''page'' = JStr ''x''
   \<and> templateDataCache demoProvider (workspaceRoot demoProvider @ '':'' @ ''never'') = None
   \<and> getTemplateData demoProvider ''never'' = JObj PlainObject []"
proof -
  let ?saved = "saveTemplateData ''page'' (JStr ''x'') demoProvider"
  have stored: "getTemplateData ?saved ''page'' = JStr ''x''"
    by (simp add: saveTemplateData_def getTemplateData_def getTemplateDataKey_def mapGet_def
        js_or_def)
  have absent: "templateDataCache demoProvider (workspaceRoot demoProvider @ '':'' @ ''never'') = None"
    by (simp add: demoProvider_def)
  note inst = clearTemplateData_getTemplateData [of "''page''" ?saved "''never''"]
  note inst' = clearTemplateData_getTemplateData [of "''page''" demoProvider "''never''"]
  from inst have cleared: "getTemplateData (clearTemplateData ''page'' ?saved) ''page'' = JObj PlainObject []"
    by (rule conjunct1 [OF conjunct2])
  from inst' have "templateDataCache demoProvider (workspaceRoot demoProvider @ '':'' @ ''never'') = None
        \<longrightarrow> getTemplateData demoProvider ''never'' = JObj PlainObject []"
    by (rule conjunct2 [OF conjunct2])
  then have never: "getTemplateData demoProvider ''never'' = JObj PlainObject []"
    using absent by (rule mp)
  from cleared stored absent never show ?thesis by (intro conjI)
qed

text \<open>
  C10. \<^verbatim>\<open>getTemplateData\<close> returns the empty object when nothing is stored under the
  key and also when what is stored is falsy (\<^verbatim>\<open>undefined\<close>, \<^verbatim>\<open>null\<close>, \<^verbatim>\<open>false\<close>,
  \<^verbatim>\<open>0\<close> or the empty string); any other stored value is returned as it is.
\<close>

theorem getTemplateData_falsy:
  "getTemplateData st templateName =
     (case templateDataCache st (workspaceRoot st @ '':'' @ templateName) of
        None \<Rightarrow> JObj PlainObject []
      | Some v \<Rightarrow>
          if v = JUndefined \<or> v = JNull \<or> v = JBool False \<or> v = JNum 0 \<or> v = JStr []
          then JObj PlainObject [] else v)"
  using truthy_iff
  by (auto simp add: getTemplateData_def getTemplateDataKey_def mapGet_def js_or_def
      emptyObject_def split: option.splits)


section \<open>Partial registration\<close>

lemma applyRegistrations_append:
  "applyRegistrations (xs @ ys) t = applyRegistrations ys (applyRegistrations xs t)"
  by (simp add: applyRegistrations_def)

lemma registerPartialFile_apply:
  "registerPartialFile ws p f c t = applyRegistrations (fileRegistrations ws p f c) t"
  by (simp add: registerPartialFile_def fileRegistrations_def applyRegistrations_def Let_def)

lemma walk_apply:
  "registerPartialsRecursively ws dir n t = applyRegistrations (partialRegistrations ws dir n) t"
  "forEachPartial ws dir files t = applyRegistrations (forEachRegistrations ws dir files) t"
  by (induction ws dir n t and ws dir files t
        rule: registerPartialsRecursively_forEachPartial.induct)
     (auto simp add: Let_def applyRegistrations_append registerPartialFile_apply
        applyRegistrations_def split: sum.splits)

lemma applyRegistrations_map_add:
  "applyRegistrations regs t
     = t ++ map_of (rev (filter (\<lambda>(k, v). k \<noteq> ''__proto__'') regs))"
proof (induction regs arbitrary: t)
  case Nil
  then show ?case by (simp add: applyRegistrations_def)
next
  case (Cons r regs)
  obtain k v where r: "r = (k, v)" by (cases r)
  show ?case
  proof (cases "k = ''__proto__''")
    case True
    have "applyRegistrations (r # regs) t = applyRegistrations regs t"
      by (simp add: applyRegistrations_def registerPartial_def r True)
    also have "\<dots> = t ++ map_of (rev (filter (\<lambda>(k, v). k \<noteq> ''__proto__'') regs))"
      by (rule Cons.IH)
    finally show ?thesis by (simp add: r True)
  next
    case False
    have "applyRegistrations (r # regs) t = applyRegistrations regs (t(k \<mapsto> v))"
      by (simp add: applyRegistrations_def registerPartial_def r False)
    also have "\<dots> = t(k \<mapsto> v) ++ map_of (rev (filter (\<lambda>(k, v). k \<noteq> ''__proto__'') regs))"
      by (rule Cons.IH)
    also have "\<dots> = t ++ map_of (rev (filter (\<lambda>(k, v). k \<noteq> ''__proto__'') (r # regs)))"
      by (simp add: r False map_add_def fun_eq_iff split: option.splits)
    finally show ?thesis .
  qed
qed

lemma found_registered:
  assumes "hbsFileUnder dir n p f x" "readable n" "readNode x = Inr c"
  shows "set (fileRegistrations ws p f c) \<subseteq> set (partialRegistrations ws dir n)"
  using assms
proof (induction rule: hbsFileUnder.induct)
  case (here fl n files dir)
  then show ?case
  proof (induction files)
    case Nil then show ?case by simp
  next
    case (Cons e files)
    obtain f' n' where e: "e = (f', n')" by (cases e)
    show ?case using Cons e
      by (cases n') (auto simp add: statIsDirectory_def readNode_def Let_def split: sum.splits)
  qed
next
  case (below sub d files dir filePath fl n)
  then show ?case
  proof (induction files)
    case Nil then show ?case by simp
  next
    case (Cons e files)
    obtain f' n' where e: "e = (f', n')" by (cases e)
    show ?case using Cons e
      by (cases n') (auto simp add: statIsDirectory_def readNode_def Let_def split: sum.splits)
  qed
qed


lemma registerPartialsIn_apply:
  "registerPartialsIn st dir t = applyRegistrations (registrationsIn st dir) t"
  by (simp add: registerPartialsIn_def registrationsIn_def walk_apply applyRegistrations_def
      split: option.splits)

lemma fold_registerPartialsIn:
  "fold (registerPartialsIn st) dirs t =
     applyRegistrations (concat (map (registrationsIn st) dirs)) t"
  by (induction dirs arbitrary: t)
     (simp_all add: registerPartialsIn_apply applyRegistrations_append, simp add: applyRegistrations_def)

lemma partialTable_registerPartials:
  "partialTable (registerPartials st) =
     fold (registerPartialsIn st) (getPartialsDirectories st) (partialTable st)"
  by (simp add: registerPartials_def Let_def postMessage_def)

lemma replace_own_prefix: "replace (p @ s) p [] = s"
proof (cases "p @ s")
  case Nil
  then show ?thesis by simp
next
  case (Cons a list)
  have "prefix p (a # list)" using Cons by (metis prefixI)
  moreover have "drop (length p) (a # list) = s" using Cons by (metis append_eq_conv_conj)
  ultimately show ?thesis using Cons by simp
qed

lemma hbs_no_overlap:
  assumes "prefix ''.hbs'' (rel @ ''.hbs'')" "rel \<noteq> []"
  shows "prefix ''.hbs'' rel"
proof -
  from assms(1) consider "prefix ''.hbs'' rel"
    | us where "''.hbs'' = rel @ us" "prefix us ''.hbs''"
    by (auto simp add: prefix_append)
  then show ?thesis
  proof cases
    case 1 then show ?thesis .
  next
    case 2
    with assms(2) show ?thesis
      by (auto simp add: append_eq_Cons_conv Cons_eq_append_conv)
  qed
qed

lemma replace_not_prefix:
  "\<not> prefix pat (c # cs) \<Longrightarrow> replace (c # cs) pat rep = c # replace cs pat rep"
  by simp

lemma replace_extension:
  "\<not> includes_str rel ''.hbs'' \<Longrightarrow> replace (rel @ ''.hbs'') ''.hbs'' [] = rel"
proof (induction rel)
  case Nil
  show ?case by simp
next
  case (Cons c cs)
  from Cons.prems have np: "\<not> prefix ''.hbs'' (c # cs)" and ni: "\<not> includes_str cs ''.hbs''"
    by simp_all
  have "\<not> prefix ''.hbs'' ((c # cs) @ ''.hbs'')"
    using hbs_no_overlap [of "c # cs"] np by blast
  then show ?case
    by (metis Cons.IH ni append_Cons replace_not_prefix)
qed


lemma fileRegistrations_keys:
  assumes "filePath = ws @ ''/'' @ rel @ ''.hbs''" "\<not> includes_str rel ''.hbs''"
    and "fl = base @ ''.hbs''" "\<not> includes_str base ''.hbs''"
  shows "(rel, content) \<in> set (fileRegistrations ws filePath fl content)"
    and "(base, content) \<in> set (fileRegistrations ws filePath fl content)"
proof -
  have "replace filePath (ws @ ''/'') [] = rel @ ''.hbs''"
    using replace_own_prefix [of "ws @ ''/''" "rel @ ''.hbs''"] assms(1) by simp
  then have a: "replace (replace filePath (ws @ ''/'') []) ''.hbs'' [] = rel"
    using replace_extension [OF assms(2)] by simp
  have b: "replace fl ''.hbs'' [] = base"
    using replace_extension [OF assms(4)] assms(3) by simp
  show "(rel, content) \<in> set (fileRegistrations ws filePath fl content)"
    by (simp add: fileRegistrations_def Let_def a)
  show "(base, content) \<in> set (fileRegistrations ws filePath fl content)"
    by (simp add: fileRegistrations_def Let_def a b)
qed

lemma fileRegistrations_calls:
  "(replace (replace filePath (ws @ ''/'') []) ''.hbs'' [], content)
      \<in> set (fileRegistrations ws filePath fl content)"
  "(replace fl ''.hbs'' [], content) \<in> set (fileRegistrations ws filePath fl content)"
  by (simp_all add: fileRegistrations_def Let_def)

lemma registered_retrievable:
  assumes "(k, c) \<in> set regs" and "k \<noteq> ''__proto__''"
  shows "\<exists>c'. (t ++ map_of (rev (filter (\<lambda>(k, v). k \<noteq> ''__proto__'') regs))) k = Some c'"
    and "(\<forall>c'. (k, c') \<in> set regs \<longrightarrow> c' = c)
         \<Longrightarrow> (t ++ map_of (rev (filter (\<lambda>(k, v). k \<noteq> ''__proto__'') regs))) k = Some c"
proof -
  let ?stored = "rev (filter (\<lambda>(k, v). k \<noteq> ''__proto__'') regs)"
  from assms have "k \<in> fst ` set ?stored" by force
  then have "map_of ?stored k \<noteq> None" by (simp add: map_of_eq_None_iff)
  then obtain c' where c': "map_of ?stored k = Some c'" by blast
  then show "\<exists>c'. (t ++ map_of ?stored) k = Some c'"
    by (simp add: map_add_def)
  assume only: "\<forall>c'. (k, c') \<in> set regs \<longrightarrow> c' = c"
  from c' have "(k, c') \<in> set ?stored" by (rule map_of_SomeD)
  then have "(k, c') \<in> set regs" by simp
  with only have "c' = c" by blast
  with c' show "(t ++ map_of ?stored) k = Some c"
    by (simp add: map_add_def)
qed

text \<open>
  C1, as the code has it. Take a partial file with the \<^verbatim>\<open>.hbs\<close> extension that a
  recursive descent finds under a partials directory whose tree is readable.
  \<^verbatim>\<open>registerPartials\<close> calls \<^verbatim>\<open>registerPartial\<close> with the file's text twice: with the
  path of the file after \<^verbatim>\<open>replace(workspaceRoot + "/", "")\<close> and \<^verbatim>\<open>replace(".hbs", "")\<close>,
  and with the file name after \<^verbatim>\<open>replace(".hbs", "")\<close>. When the path starts with the
  workspace root and \<^verbatim>\<open>.hbs\<close> occurs in the rest of the path and in the file name as the
  extension only, these two names are the path relative to the workspace root (not to the
  partials directory) with the extension stripped, and the bare file name with the
  extension stripped; each of them that is not \<^verbatim>\<open>__proto__\<close> is then a key of the
  table, and the text under it is the file's text when no registration gives that name
  another text. The table afterwards is the table before, overwritten by the
  registrations in the order they were made, those of \<^verbatim>\<open>__proto__\<close> left out, so a
  later registration of a name replaces an earlier one.
\<close>

theorem registerPartials_two_keys:
  assumes "dir \<in> set (getPartialsDirectories st)"
    and "resolve (fileSystem st) dir = Some tree"
    and "readable tree"
    and "hbsFileUnder dir tree filePath fl (File content)"
  shows "(replace (replace filePath (workspaceRoot st @ ''/'') []) ''.hbs'' [], content)
           \<in> set (allPartialRegistrations st)
       \<and> (replace fl ''.hbs'' [], content) \<in> set (allPartialRegistrations st)
       \<and> (filePath = workspaceRoot st @ ''/'' @ rel @ ''.hbs'' \<and> \<not> includes_str rel ''.hbs''
            \<and> fl = base @ ''.hbs'' \<and> \<not> includes_str base ''.hbs''
          \<longrightarrow> (rel, content) \<in> set (allPartialRegistrations st)
              \<and> (base, content) \<in> set (allPartialRegistrations st)
              \<and> (rel \<noteq> ''__proto__''
                   \<longrightarrow> (\<exists>c'. partialTable (registerPartials st) rel = Some c')
                       \<and> ((\<forall>c'. (rel, c') \<in> set (allPartialRegistrations st) \<longrightarrow> c' = content)
                            \<longrightarrow> partialTable (registerPartials st) rel = Some content))
              \<and> (base \<noteq> ''__proto__''
                   \<longrightarrow> (\<exists>c'. partialTable (registerPartials st) base = Some c')
                       \<and> ((\<forall>c'. (base, c') \<in> set (allPartialRegistrations st) \<longrightarrow> c' = content)
                            \<longrightarrow> partialTable (registerPartials st) base = Some content)))
       \<and> partialTable (registerPartials st)
           = partialTable st
             ++ map_of (rev (filter (\<lambda>(k, v). k \<noteq> ''__proto__'') (allPartialRegistrations st)))"
proof -
  let ?regs = "allPartialRegistrations st"
  have sub: "set (fileRegistrations (workspaceRoot st) filePath fl content)
               \<subseteq> set (registrationsIn st dir)"
    using found_registered [OF assms(4) assms(3), of content "workspaceRoot st"] assms(2)
    by (simp add: registrationsIn_def readNode_def)
  have inall: "set (registrationsIn st dir) \<subseteq> set ?regs"
    using assms(1) by (auto simp add: allPartialRegistrations_def)
  have g1: "(replace (replace filePath (workspaceRoot st @ ''/'') []) ''.hbs'' [], content) \<in> set ?regs"
    using fileRegistrations_calls(1) [of filePath "workspaceRoot st" content fl] sub inall by blast
  have g2: "(replace fl ''.hbs'' [], content) \<in> set ?regs"
    using fileRegistrations_calls(2) [of fl content "workspaceRoot st" filePath] sub inall by blast
  have t: "partialTable (registerPartials st)
             = partialTable st ++ map_of (rev (filter (\<lambda>(k, v). k \<noteq> ''__proto__'') ?regs))"
    by (simp add: partialTable_registerPartials fold_registerPartialsIn
        allPartialRegistrations_def applyRegistrations_map_add)
  have key: "(\<exists>c'. partialTable (registerPartials st) k = Some c')
        \<and> ((\<forall>c'. (k, c') \<in> set ?regs \<longrightarrow> c' = content)
             \<longrightarrow> partialTable (registerPartials st) k = Some content)"
    if m: "(k, content) \<in> set ?regs" and np: "k \<noteq> ''__proto__''" for k
  proof (intro conjI impI)
    have "\<exists>c'. (partialTable st
                 ++ map_of (rev (filter (\<lambda>(k, v). k \<noteq> ''__proto__'') ?regs))) k = Some c'"
      by (rule registered_retrievable(1) [OF m np])
    then show "\<exists>c'. partialTable (registerPartials st) k = Some c'"
      by (simp only: t)
  next
    assume only: "\<forall>c'. (k, c') \<in> set ?regs \<longrightarrow> c' = content"
    have "(partialTable st
            ++ map_of (rev (filter (\<lambda>(k, v). k \<noteq> ''__proto__'') ?regs))) k = Some content"
      by (rule registered_retrievable(2) [OF m np only])
    then show "partialTable (registerPartials st) k = Some content"
      by (simp only: t)
  qed
  show ?thesis
  proof (intro conjI impI)
    show "(replace (replace filePath (workspaceRoot st @ ''/'') []) ''.hbs'' [], content) \<in> set ?regs"
      by (rule g1)
    show "(replace fl ''.hbs'' [], content) \<in> set ?regs"
      by (rule g2)
    show "partialTable (registerPartials st)
           = partialTable st ++ map_of (rev (filter (\<lambda>(k, v). k \<noteq> ''__proto__'') ?regs))"
      by (rule t)
  next
    assume h: "filePath = workspaceRoot st @ ''/'' @ rel @ ''.hbs'' \<and> \<not> includes_str rel ''.hbs''
            \<and> fl = base @ ''.hbs'' \<and> \<not> includes_str base ''.hbs''"
    then have h1: "filePath = workspaceRoot st @ ''/'' @ rel @ ''.hbs''"
      and h2: "\<not> includes_str rel ''.hbs''" and h3: "fl = base @ ''.hbs''"
      and h4: "\<not> includes_str base ''.hbs''" by simp_all
    show r: "(rel, content) \<in> set ?regs"
      using fileRegistrations_keys(1) [OF h1 h2 h3 h4] sub inall by blast
    show b: "(base, content) \<in> set ?regs"
      using fileRegistrations_keys(2) [OF h1 h2 h3 h4] sub inall by blast
    {
      assume np: "rel \<noteq> ''__proto__''"
      show "\<exists>c'. partialTable (registerPartials st) rel = Some c'"
        using key [OF r np] by (rule conjunct1)
      assume "\<forall>c'. (rel, c') \<in> set ?regs \<longrightarrow> c' = content"
      with key [OF r np] show "partialTable (registerPartials st) rel = Some content"
        by (rule conjunct2 [THEN mp])
    }
    {
      assume np: "base \<noteq> ''__proto__''"
      show "\<exists>c'. partialTable (registerPartials st) base = Some c'"
        using key [OF b np] by (rule conjunct1)
      assume "\<forall>c'. (base, c') \<in> set ?regs \<longrightarrow> c' = content"
      with key [OF b np] show "partialTable (registerPartials st) base = Some content"
        by (rule conjunct2 [THEN mp])
    }
  qed
qed

theorem registerPartials_two_keys_witness:
  "(''templates/a/b/c'', ''C'') \<in> set (allPartialRegistrations demoProvider)
   \<and> (''c'', ''C'') \<in> set (allPartialRegistrations demoProvider)
   \<and> allPartialRegistrations demoProvider
       = [(''templates/page'', ''<h1>page</h1>''), (''page'', ''<h1>page</h1>''),
          (''templates/components/button'', ''<button/>''), (''button'', ''<button/>''),
          (''templates/a/b/c'', ''C''), (''c'', ''C'')]
   \<and> partialTable (registerPartials demoProvider) ''templates/a/b/c'' = Some ''C''
   \<and> partialTable (registerPartials demoProvider) ''c'' = Some ''C''"
proof -
  let ?tree = demoTemplates
  have dir: "''/ws/templates'' \<in> set (getPartialsDirectories demoProvider)"
    by code_simp
  have tree: "resolve (fileSystem demoProvider) ''/ws/templates'' = Some ?tree"
    by code_simp
  have readable: "readable ?tree"
    by (simp add: demoTemplates_def)
  have j1: "join ''/ws/templates'' ''a'' = ''/ws/templates/a''" by code_simp
  have j2: "join ''/ws/templates/a'' ''b'' = ''/ws/templates/a/b''" by code_simp
  have j3: "join ''/ws/templates/a/b'' ''c.hbs'' = ''/ws/templates/a/b/c.hbs''" by code_simp
  have "hbsFileUnder ''/ws/templates/a/b'' (Dir [(''c.hbs'', File ''C'')])
          (join ''/ws/templates/a/b'' ''c.hbs'') ''c.hbs'' (File ''C'')"
    by (rule hbsFileUnder.here) (simp_all add: statIsDirectory_def endsWith_def suffix_to_prefix)
  then have "hbsFileUnder (join ''/ws/templates/a'' ''b'') (Dir [(''c.hbs'', File ''C'')])
          ''/ws/templates/a/b/c.hbs'' ''c.hbs'' (File ''C'')"
    by (simp only: j2 j3)
  then have "hbsFileUnder ''/ws/templates/a'' (Dir [(''b'', Dir [(''c.hbs'', File ''C'')])])
          ''/ws/templates/a/b/c.hbs'' ''c.hbs'' (File ''C'')"
    by (rule hbsFileUnder.below [rotated]) simp
  then have "hbsFileUnder (join ''/ws/templates'' ''a'') (Dir [(''b'', Dir [(''c.hbs'', File ''C'')])])
          ''/ws/templates/a/b/c.hbs'' ''c.hbs'' (File ''C'')"
    by (simp only: j1)
  then have found: "hbsFileUnder ''/ws/templates'' ?tree
          ''/ws/templates/a/b/c.hbs'' ''c.hbs'' (File ''C'')"
    unfolding demoTemplates_def by (rule hbsFileUnder.below [rotated]) simp
  have names: "''/ws/templates/a/b/c.hbs'' = workspaceRoot demoProvider @ ''/'' @ ''templates/a/b/c'' @ ''.hbs''
        \<and> \<not> includes_str ''templates/a/b/c'' ''.hbs''
        \<and> ''c.hbs'' = ''c'' @ ''.hbs'' \<and> \<not> includes_str ''c'' ''.hbs''"
    by (simp add: demoProvider_def)
  have regs: "allPartialRegistrations demoProvider
      = [(''templates/page'', ''<h1>page</h1>''), (''page'', ''<h1>page</h1>''),
         (''templates/components/button'', ''<button/>''), (''button'', ''<button/>''),
         (''templates/a/b/c'', ''C''), (''c'', ''C'')]"
    by code_simp
  have only1: "\<forall>c'. (''templates/a/b/c'', c') \<in> set (allPartialRegistrations demoProvider) \<longrightarrow> c' = ''C''"
    by (simp add: regs)
  have only2: "\<forall>c'. (''c'', c') \<in> set (allPartialRegistrations demoProvider) \<longrightarrow> c' = ''C''"
    by (simp add: regs)
  have np1: "''templates/a/b/c'' \<noteq> ''__proto__''" by simp
  have np2: "''c'' \<noteq> ''__proto__''" by simp
  note T = registerPartials_two_keys [OF dir tree readable found,
             where rel = "''templates/a/b/c''" and base = "''c''"]
  from T names np1 only1
  have t1: "partialTable (registerPartials demoProvider) ''templates/a/b/c'' = Some ''C''"
    by blast
  from T names np2 only2
  have t2: "partialTable (registerPartials demoProvider) ''c'' = Some ''C''"
    by blast
  from T names have m1: "(''templates/a/b/c'', ''C'') \<in> set (allPartialRegistrations demoProvider)"
    by blast
  from T names have m2: "(''c'', ''C'') \<in> set (allPartialRegistrations demoProvider)"
    by blast
  from m1 m2 regs t1 t2 show ?thesis by (intro conjI)
qed

text \<open>
  C1 as stated fails: the partial \<^verbatim>\<open>a/b/c.hbs\<close> under the partials directory
  \<^verbatim>\<open>/ws/templates\<close> is not registered as \<^verbatim>\<open>a/b/c\<close>, but as \<^verbatim>\<open>templates/a/b/c\<close> and
  as \<^verbatim>\<open>c\<close>.
\<close>

theorem registerPartials_root_relative_counterexample:
  "getPartialsDirectories demoProvider = [''/ws/templates'']
   \<and> partialTable (registerPartials demoProvider) ''a/b/c'' = None
   \<and> partialTable (registerPartials demoProvider) ''templates/a/b/c'' = Some ''C''
   \<and> partialTable (registerPartials demoProvider) ''c'' = Some ''C''"
  by code_simp


section \<open>Rendering and the messages of the webview\<close>

lemma registerPartials_frame:
  "workspaceRoot (registerPartials st) = workspaceRoot st"
  "vscodeSettings (registerPartials st) = vscodeSettings st"
  "fileSystem (registerPartials st) = fileSystem st"
  "panel (registerPartials st) = panel st"
  "watchers (registerPartials st) = watchers st"
  "templateDataCache (registerPartials st) = templateDataCache st"
  "posted (registerPartials st) = posted st @ (if panel st then [PartialsRegistered] else [])"
  by (simp_all add: registerPartials_def Let_def postMessage_def)

lemma renderTemplate_frame:
  assumes "renderTemplate compileAndRun st templateName d = (r, st1)"
  shows "st1 = st \<or> st1 = registerPartials st"
  using assms
  by (auto simp add: renderTemplate_def Let_def split: option.splits sum.splits)

lemma getTemplateData_saveTemplateData:
  "getTemplateData (saveTemplateData templateName d st) templateName = js_or d emptyObject"
  by (simp add: getTemplateData_def saveTemplateData_def getTemplateDataKey_def mapGet_def)

lemma js_or_idem: "js_or (js_or d emptyObject) emptyObject = js_or d emptyObject"
  by (simp add: js_or_def emptyObject_def)

lemma demo_scan: "getAvailableTemplates demoProvider =
  [\<lparr>name = ''page'', directory = ''templates'', fullPath = ''/ws/templates/page.hbs''\<rparr>,
   \<lparr>name = ''a/b/c'', directory = ''templates'', fullPath = ''/ws/templates/a/b/c.hbs''\<rparr>]"
  by code_simp

lemma demo_render:
  "renderTemplate plainTextEngine demoProvider ''page'' d
     = (Inr ''<h1>page</h1>'', registerPartials demoProvider)"
proof -
  have "readFileSync (fileSystem demoProvider) ''/ws/templates/page.hbs'' = Inr ''<h1>page</h1>''"
    by code_simp
  then show ?thesis
    by (simp add: renderTemplate_def demo_scan Let_def registerPartials_frame plainTextEngine_def)
qed

text \<open>
  C2. When no record of the template list carries the requested name, the
  \<^verbatim>\<open>renderTemplate\<close> request fails with the error \<^verbatim>\<open>Template not found: name\<close>: the
  message sent to the webview is that error text, no markup is sent, and nothing but the
  list of posted messages changes, so the data cache is as it was.
\<close>

theorem renderTemplate_not_found:
  assumes "panel st"
    and "\<forall>t \<in> set (getAvailableTemplates st). name t \<noteq> templateName"
  shows "renderTemplate compileAndRun st templateName (js_or data emptyObject)
           = (Inl (JsError (''Template not found: '' @ templateName)), st)
       \<and> onDidReceiveMessage compileAndRun st (RenderTemplate templateName data)
           = Inr (st\<lparr>posted := posted st @ [ErrorMessage (''Template not found: '' @ templateName)]\<rparr>)
       \<and> (\<forall>st'. onDidReceiveMessage compileAndRun st (RenderTemplate templateName data) = Inr st'
             \<longrightarrow> templateDataCache st' = templateDataCache st)"
proof -
  have none: "find (\<lambda>t. name t = templateName) (getAvailableTemplates st) = None"
    using assms(2) by (simp add: find_None_iff)
  have r: "renderTemplate compileAndRun st templateName (js_or data emptyObject)
           = (Inl (JsError (''Template not found: '' @ templateName)), st)"
    by (simp add: renderTemplate_def none)
  have h: "onDidReceiveMessage compileAndRun st (RenderTemplate templateName data)
           = Inr (st\<lparr>posted := posted st @ [ErrorMessage (''Template not found: '' @ templateName)]\<rparr>)"
    using assms(1)
    by (simp add: onDidReceiveMessage_def r postToPanel_def postMessage_def errorMessage_def)
  show ?thesis using r h by simp
qed

theorem renderTemplate_not_found_witness:
  "panel demoProvider
   \<and> (''missing'' \<notin> name ` set (getAvailableTemplates demoProvider))
   \<and> onDidReceiveMessage plainTextEngine demoProvider (RenderTemplate ''missing'' emptyObject)
       = Inr (demoProvider\<lparr>posted := posted demoProvider @ [ErrorMessage ''Template not found: missing'']\<rparr>)"
proof -
  have p: "panel demoProvider" by (simp add: demoProvider_def)
  have n: "\<forall>t \<in> set (getAvailableTemplates demoProvider). name t \<noteq> ''missing''"
    by (simp add: demo_scan)
  have n': "''missing'' \<notin> name ` set (getAvailableTemplates demoProvider)"
    by (simp add: demo_scan)
  from renderTemplate_not_found [OF p n, of plainTextEngine emptyObject]
  have "onDidReceiveMessage plainTextEngine demoProvider (RenderTemplate ''missing'' emptyObject)
       = Inr (demoProvider\<lparr>posted := posted demoProvider @ [ErrorMessage (''Template not found: '' @ ''missing'')]\<rparr>)"
    by (rule conjunct1 [OF conjunct2])
  then show ?thesis using p n' by simp
qed

text \<open>
  C3, as the code has it. The request renders and stores \<^verbatim>\<open>message.data || {}\<close>. When
  the rendering succeeds, that value is in the cache in the state in which the
  \<^verbatim>\<open>rendered\<close> message is posted, and a following \<^verbatim>\<open>getTemplateData\<close> request for
  the name answers with it: the data itself when the data is truthy (every object is),
  the empty object when the data is \<^verbatim>\<open>undefined\<close>, \<^verbatim>\<open>null\<close>, \<^verbatim>\<open>false\<close>, \<^verbatim>\<open>0\<close> or the
  empty string.
\<close>

theorem renderTemplate_saves_data:
  assumes "panel st"
    and "renderTemplate compileAndRun st templateName (js_or data emptyObject) = (Inr html, st1)"
  shows "\<exists>saved st2.
           saved = saveTemplateData templateName (js_or data emptyObject) st1
         \<and> getTemplateData saved templateName = js_or data emptyObject
         \<and> st2 = postMessage (Rendered html) saved
         \<and> onDidReceiveMessage compileAndRun st (RenderTemplate templateName data) = Inr st2
         \<and> getTemplateData st2 templateName = js_or data emptyObject
         \<and> (truthy data \<longrightarrow> getTemplateData st2 templateName = data)
         \<and> (\<not> truthy data \<longrightarrow> getTemplateData st2 templateName = JObj PlainObject [])
         \<and> onDidReceiveMessage compileAndRun st2 (GetTemplateData templateName)
             = Inr (postMessage (TemplateData (js_or data emptyObject)) st2)"
proof -
  let ?d = "js_or data emptyObject"
  let ?saved = "saveTemplateData templateName ?d st1"
  let ?st2 = "postMessage (Rendered html) ?saved"
  have p1: "panel st1"
    using renderTemplate_frame [OF assms(2)] assms(1) by (auto simp add: registerPartials_frame)
  have ps: "panel ?saved" using p1 by (simp add: saveTemplateData_def)
  have g: "getTemplateData ?saved templateName = ?d"
    by (simp add: getTemplateData_saveTemplateData js_or_idem)
  have g2: "getTemplateData ?st2 templateName = ?d"
    using g by (simp add: getTemplateData_def postMessage_def getTemplateDataKey_def)
  have h: "onDidReceiveMessage compileAndRun st (RenderTemplate templateName data) = Inr ?st2"
    using ps by (simp add: onDidReceiveMessage_def assms(2) Let_def postToPanel_def)
  have p2: "panel ?st2" using ps by (simp add: postMessage_def)
  have q: "onDidReceiveMessage compileAndRun ?st2 (GetTemplateData templateName)
             = Inr (postMessage (TemplateData ?d) ?st2)"
    using p2 g2 by (simp add: onDidReceiveMessage_def postToPanel_def)
  have t: "truthy data \<longrightarrow> getTemplateData ?st2 templateName = data"
  proof
    assume "truthy data"
    then have "?d = data" by (simp add: js_or_def)
    with g2 show "getTemplateData ?st2 templateName = data" by simp
  qed
  have f: "\<not> truthy data \<longrightarrow> getTemplateData ?st2 templateName = JObj PlainObject []"
  proof
    assume "\<not> truthy data"
    then have "?d = JObj PlainObject []" by (simp add: js_or_def emptyObject_def)
    with g2 show "getTemplateData ?st2 templateName = JObj PlainObject []" by simp
  qed
  show ?thesis using g g2 h q t f by blast
qed

theorem renderTemplate_saves_data_witness:
  "panel demoProvider
   \<and> renderTemplate plainTextEngine demoProvider ''page''
        (js_or (JObj PlainObject [(''a'', JNum 1)]) emptyObject)
       = (Inr ''<h1>page</h1>'', registerPartials demoProvider)
   \<and> (\<exists>st2. onDidReceiveMessage plainTextEngine demoProvider
               (RenderTemplate ''page'' (JObj PlainObject [(''a'', JNum 1)])) = Inr st2
           \<and> getTemplateData st2 ''page'' = JObj PlainObject [(''a'', JNum 1)])"
proof -
  let ?data = "JObj PlainObject [(''a'', JNum 1)]"
  have p: "panel demoProvider" by (simp add: demoProvider_def)
  have r: "renderTemplate plainTextEngine demoProvider ''page'' (js_or ?data emptyObject)
       = (Inr ''<h1>page</h1>'', registerPartials demoProvider)"
    by (rule demo_render)
  have t: "truthy ?data" by simp
  from renderTemplate_saves_data [OF p r] t
  have "\<exists>st2. onDidReceiveMessage plainTextEngine demoProvider (RenderTemplate ''page'' ?data) = Inr st2
           \<and> getTemplateData st2 ''page'' = ?data"
    by blast
  with p r show ?thesis by blast
qed

text \<open>
  C3 as stated fails for falsy data: a request that renders \<^verbatim>\<open>page\<close> with the data
  \<^verbatim>\<open>null\<close> succeeds, and \<^verbatim>\<open>getTemplateData\<close> then returns the empty object, not
  \<^verbatim>\<open>null\<close>.
\<close>

theorem renderTemplate_falsy_data_counterexample:
  "\<not> isl (onDidReceiveMessage plainTextEngine demoProvider (RenderTemplate ''page'' JNull))
   \<and> posted (projr (onDidReceiveMessage plainTextEngine demoProvider (RenderTemplate ''page'' JNull)))
       = [PartialsRegistered, Rendered ''<h1>page</h1>'']
   \<and> getTemplateData
        (projr (onDidReceiveMessage plainTextEngine demoProvider (RenderTemplate ''page'' JNull)))
        ''page'' = JObj PlainObject []
   \<and> getTemplateData
        (projr (onDidReceiveMessage plainTextEngine demoProvider (RenderTemplate ''page'' JNull)))
        ''page'' \<noteq> JNull"
  by code_simp


section \<open>The template list\<close>

text \<open>
  C4. No record of the template list has a name that contains \<^verbatim>\<open>components/\<close>,
  whatever the settings, the workspace and the directory the record came from. The
  partial walk has no such filter: in the example workspace the component
  \<^verbatim>\<open>templates/components/button\<close> is registered as a partial.
\<close>

theorem getAvailableTemplates_no_components:
  "(\<forall>t \<in> set (getAvailableTemplates st). \<not> includes_str (name t) ''components/'')
   \<and> partialTable (registerPartials demoProvider) ''templates/components/button'' = Some ''<button/>''"
proof
  show "\<forall>t \<in> set (getAvailableTemplates st). \<not> includes_str (name t) ''components/''"
    by (simp add: getAvailableTemplates_def)
  show "partialTable (registerPartials demoProvider) ''templates/components/button'' = Some ''<button/>''"
    by code_simp
qed

theorem getAvailableTemplates_no_components_witness:
  "\<lparr>name = ''a/b/c'', directory = ''templates'', fullPath = ''/ws/templates/a/b/c.hbs''\<rparr>
     \<in> set (getAvailableTemplates demoProvider)
   \<and> \<not> includes_str
         (name \<lparr>name = ''a/b/c'', directory = ''templates'', fullPath = ''/ws/templates/a/b/c.hbs''\<rparr>)
         ''components/''
   \<and> \<lparr>name = ''components/button'', directory = ''templates'',
        fullPath = ''/ws/templates/components/button.hbs''\<rparr>
       \<notin> set (getAvailableTemplates demoProvider)"
proof -
  let ?t = "\<lparr>name = ''a/b/c'', directory = ''templates'', fullPath = ''/ws/templates/a/b/c.hbs''\<rparr>"
  have m: "?t \<in> set (getAvailableTemplates demoProvider)"
    by (simp add: demo_scan)
  have "\<forall>t \<in> set (getAvailableTemplates demoProvider). \<not> includes_str (name t) ''components/''"
    by (rule conjunct1 [OF getAvailableTemplates_no_components])
  then have "\<not> includes_str (name ?t) ''components/''"
    using m by (rule bspec)
  moreover have "\<lparr>name = ''components/button'', directory = ''templates'',
        fullPath = ''/ws/templates/components/button.hbs''\<rparr>
       \<notin> set (getAvailableTemplates demoProvider)"
    by (simp add: demo_scan)
  ultimately show ?thesis using m by blast
qed


section \<open>File watchers\<close>

lemma refreshTemplates_frame:
  "partialTable (refreshTemplates st) = partialTable st"
  "posted (refreshTemplates st)
     = posted st @ (if panel st then [Templates (getAvailableTemplates st)] else [])"
  "panel (refreshTemplates st) = panel st"
  by (simp_all add: refreshTemplates_def postMessage_def)

lemma autoRerender_frame:
  "partialTable (autoRerender st) = partialTable st"
  "posted (autoRerender st) = posted st @ (if panel st then [AutoRerender] else [])"
  by (simp_all add: autoRerender_def postMessage_def)

lemma getTemplatesIn_cong:
  "workspaceRoot st' = workspaceRoot st \<Longrightarrow> fileSystem st' = fileSystem st
   \<Longrightarrow> getTemplatesIn st' = getTemplatesIn st"
  by (auto simp add: getTemplatesIn_def fun_eq_iff split: option.splits)

lemma getAvailableTemplates_cong:
  assumes "workspaceRoot st' = workspaceRoot st" "fileSystem st' = fileSystem st"
    and "vscodeSettings st' = vscodeSettings st"
  shows "getAvailableTemplates st' = getAvailableTemplates st"
proof -
  have "getTemplatesIn st' = getTemplatesIn st"
    using assms(1,2) by (rule getTemplatesIn_cong)
  moreover have "getTemplateDirectories st' = getTemplateDirectories st"
    using assms by (simp add: getTemplateDirectories_def)
  ultimately show ?thesis by (simp add: getAvailableTemplates_def)
qed

lemma getAvailableTemplates_registerPartials:
  "getAvailableTemplates (registerPartials st) = getAvailableTemplates st"
  by (rule getAvailableTemplates_cong) (simp_all add: registerPartials_frame)

text \<open>
  C7, as the code has it. With the panel open, a change event of a watcher of a template
  directory re-registers the partials, posts the refreshed template list and posts one
  \<^verbatim>\<open>autoRerender\<close>; a create or delete event of such a watcher re-registers the
  partials and posts the refreshed list, and no \<^verbatim>\<open>autoRerender\<close>. A watcher of a
  partials directory that is not a template directory only re-registers the partials,
  on all three events: it posts neither the template list nor \<^verbatim>\<open>autoRerender\<close>.
\<close>

theorem watcher_events:
  assumes "panel st"
  shows "posted (onDidChange (Watcher TemplateWatcher pat) st)
           = posted st @ [PartialsRegistered, Templates (getAvailableTemplates st), AutoRerender]
       \<and> posted (onDidCreate (Watcher TemplateWatcher pat) st)
           = posted st @ [PartialsRegistered, Templates (getAvailableTemplates st)]
       \<and> posted (onDidDelete (Watcher TemplateWatcher pat) st)
           = posted st @ [PartialsRegistered, Templates (getAvailableTemplates st)]
       \<and> posted (onDidChange (Watcher PartialsWatcher pat) st) = posted st @ [PartialsRegistered]
       \<and> posted (onDidCreate (Watcher PartialsWatcher pat) st) = posted st @ [PartialsRegistered]
       \<and> posted (onDidDelete (Watcher PartialsWatcher pat) st) = posted st @ [PartialsRegistered]
       \<and> partialTable (onDidChange (Watcher kind pat) st) = partialTable (registerPartials st)
       \<and> partialTable (onDidCreate (Watcher kind pat) st) = partialTable (registerPartials st)
       \<and> partialTable (onDidDelete (Watcher kind pat) st) = partialTable (registerPartials st)"
  using assms
  by (cases kind)
     (simp_all add: refreshTemplates_frame autoRerender_frame registerPartials_frame
        getAvailableTemplates_registerPartials)

theorem watcher_events_witness:
  "panel demoProviderWithPartials
   \<and> posted (onDidChange (Watcher TemplateWatcher ''templates/**/*.hbs'') demoProviderWithPartials)
       = posted demoProviderWithPartials
         @ [PartialsRegistered, Templates (getAvailableTemplates demoProviderWithPartials), AutoRerender]
   \<and> posted (onDidCreate (Watcher PartialsWatcher ''partials/**/*.hbs'') demoProviderWithPartials)
       = posted demoProviderWithPartials @ [PartialsRegistered]"
proof -
  have p: "panel demoProviderWithPartials"
    by (simp add: demoProviderWithPartials_def demoProvider_def)
  note w = watcher_events [OF p, of "''templates/**/*.hbs''" TemplateWatcher]
  note w' = watcher_events [OF p, of "''partials/**/*.hbs''" PartialsWatcher]
  from w have a: "posted (onDidChange (Watcher TemplateWatcher ''templates/**/*.hbs'') demoProviderWithPartials)
       = posted demoProviderWithPartials
         @ [PartialsRegistered, Templates (getAvailableTemplates demoProviderWithPartials), AutoRerender]"
    by (rule conjunct1)
  from w' have b: "posted (onDidCreate (Watcher PartialsWatcher ''partials/**/*.hbs'') demoProviderWithPartials)
       = posted demoProviderWithPartials @ [PartialsRegistered]"
    by blast
  from p a b show ?thesis by (intro conjI)
qed

text \<open>
  C7 as stated fails for the watcher of a partials directory: with \<^verbatim>\<open>partials\<close>
  configured beside \<^verbatim>\<open>templates\<close>, a change event on the partials watcher posts
  \<^verbatim>\<open>partialsRegistered\<close> and no template list.
\<close>

theorem watcher_events_counterexample:
  "watchers (setupFileWatchers demoProviderWithPartials)
     = [Watcher TemplateWatcher ''templates/**/*.hbs'', Watcher PartialsWatcher ''partials/**/*.hbs'']
   \<and> posted (onDidChange (Watcher PartialsWatcher ''partials/**/*.hbs'') demoProviderWithPartials)
       = [PartialsRegistered]
   \<and> posted (onDidChange (Watcher TemplateWatcher ''templates/**/*.hbs'') demoProviderWithPartials)
       = [PartialsRegistered,
          Templates [\<lparr>name = ''page'', directory = ''templates'', fullPath = ''/ws/templates/page.hbs''\<rparr>,
                     \<lparr>name = ''a/b/c'', directory = ''templates'', fullPath = ''/ws/templates/a/b/c.hbs''\<rparr>],
          AutoRerender]"
  by code_simp


section \<open>The helper adapter and the helper loader\<close>

lemma setOwn_absent: "map_of props k = None \<Longrightarrow> setOwn k v props = props @ [(k, v)]"
  by (induction props) (auto split: if_splits)

lemma map_of_setOwn: "map_of (setOwn k v props) k = Some v"
  by (induction props) auto

lemma setOwn_twice: "setOwn k v (setOwn k w props) = setOwn k v props"
  by (induction props) auto

lemma helperAdapter_object:
  "helperAdapter helper this (args @ [JObj kind props]) =
     (case setProp
             (if truthy (case map_of props ''data'' of None \<Rightarrow> JUndefined | Some x \<Rightarrow> x)
              then (case map_of props ''data'' of None \<Rightarrow> JUndefined | Some x \<Rightarrow> x)
              else emptyObject)
             ''hbs'' handlebars of
        Inl e \<Rightarrow> Inl e
      | Inr d2 \<Rightarrow> helper this (args @ [JObj kind (setOwn ''data'' d2 props)]))"
  by (simp add: helperAdapter_def getProp_def setProp_def map_of_setOwn setOwn_twice
      split: sum.splits)

lemma truthy_primitive:
  assumes "truthy d" and "\<forall>k dprops. d \<noteq> JObj k dprops"
  shows "setProp d ''hbs'' handlebars
           = Inl (JsError (''Cannot create property '' @ quoted ''hbs'' @ '' on '' @ typeofName d))"
  using assms by (cases d) (simp_all add: setProp_def)

text \<open>
  C5, as the code has it. For an entry of the helpers mapping whose value is a function,
  what is registered under the entry's key is the adapter of that function. The adapter
  reads \<^verbatim>\<open>data\<close> of the final argument without testing that there is one. Called
  with an object as the final argument whose \<^verbatim>\<open>data\<close> is absent, falsy or an object,
  it puts the engine under \<^verbatim>\<open>hbs\<close> in that \<^verbatim>\<open>data\<close> (a fresh object when \<^verbatim>\<open>data\<close> is
  absent or falsy) and calls the function with the same \<^verbatim>\<open>this\<close>, the same arguments
  before the last, and that object last. In every other case it throws a \<^verbatim>\<open>TypeError\<close>
  and does not call the function: when \<^verbatim>\<open>data\<close> of the final object is a truthy
  primitive, when the final argument is a primitive, and when it is absent, that is,
  when there is no argument or the last one is \<^verbatim>\<open>undefined\<close> or \<^verbatim>\<open>null\<close>.
\<close>

theorem helperAdapter_options:
  "helperTable (fst (registerEntry (helperName, ExportedFunction helper) (host, registered))) helperName
     = Some (helperAdapter helper)
   \<and> (map_of props ''data'' = None \<longrightarrow>
      helperAdapter helper this (args @ [JObj kind props])
        = helper this (args @ [JObj kind (props @ [(''data'', JObj PlainObject [(''hbs'', handlebars)])])]))
   \<and> (map_of props ''data'' = Some d \<and> \<not> truthy d \<longrightarrow>
      helperAdapter helper this (args @ [JObj kind props])
        = helper this (args @ [JObj kind (setOwn ''data'' (JObj PlainObject [(''hbs'', handlebars)]) props)]))
   \<and> (map_of props ''data'' = Some (JObj k dprops) \<longrightarrow>
      helperAdapter helper this (args @ [JObj kind props])
        = helper this (args @ [JObj kind (setOwn ''data'' (JObj k (setOwn ''hbs'' handlebars dprops)) props)]))
   \<and> (map_of props ''data'' = Some d \<and> truthy d \<and> (\<forall>k dprops. d \<noteq> JObj k dprops) \<longrightarrow>
      (\<exists>m. \<forall>h. helperAdapter h this (args @ [JObj kind props]) = Inl (JsError m)))
   \<and> (\<exists>m. \<forall>h. helperAdapter h this (args @ [JBool b]) = Inl (JsError m))
   \<and> (\<exists>m. \<forall>h. helperAdapter h this (args @ [JNum x]) = Inl (JsError m))
   \<and> (\<exists>m. \<forall>h. helperAdapter h this (args @ [JStr str]) = Inl (JsError m))
   \<and> helperAdapter helper this []
        = Inl (JsError (''Cannot read properties of undefined (reading '' @ quoted ''data'' @ '')''))
   \<and> helperAdapter helper this (args @ [JUndefined])
        = Inl (JsError (''Cannot read properties of undefined (reading '' @ quoted ''data'' @ '')''))
   \<and> helperAdapter helper this (args @ [JNull])
        = Inl (JsError (''Cannot read properties of null (reading '' @ quoted ''data'' @ '')''))"
proof (intro conjI impI)
  show "helperTable (fst (registerEntry (helperName, ExportedFunction helper) (host, registered))) helperName
     = Some (helperAdapter helper)"
    by (simp add: consoleWrite_def)
next
  assume a: "map_of props ''data'' = None"
  show "helperAdapter helper this (args @ [JObj kind props])
        = helper this (args @ [JObj kind (props @ [(''data'', JObj PlainObject [(''hbs'', handlebars)])])])"
    by (simp add: helperAdapter_object a setProp_def emptyObject_def setOwn_absent [OF a])
next
  assume a: "map_of props ''data'' = Some d \<and> \<not> truthy d"
  then show "helperAdapter helper this (args @ [JObj kind props])
        = helper this (args @ [JObj kind (setOwn ''data'' (JObj PlainObject [(''hbs'', handlebars)]) props)])"
    by (simp add: helperAdapter_object setProp_def emptyObject_def)
next
  assume a: "map_of props ''data'' = Some (JObj k dprops)"
  then show "helperAdapter helper this (args @ [JObj kind props])
        = helper this (args @ [JObj kind (setOwn ''data'' (JObj k (setOwn ''hbs'' handlebars dprops)) props)])"
    by (simp add: helperAdapter_object setProp_def)
next
  assume a: "map_of props ''data'' = Some d \<and> truthy d \<and> (\<forall>k dprops. d \<noteq> JObj k dprops)"
  then have "setProp d ''hbs'' handlebars
           = Inl (JsError (''Cannot create property '' @ quoted ''hbs'' @ '' on '' @ typeofName d))"
    by (intro truthy_primitive) simp_all
  with a have "\<forall>h. helperAdapter h this (args @ [JObj kind props])
        = Inl (JsError (''Cannot create property '' @ quoted ''hbs'' @ '' on '' @ typeofName d))"
    by (simp add: helperAdapter_object)
  then show "\<exists>m. \<forall>h. helperAdapter h this (args @ [JObj kind props]) = Inl (JsError m)"
    by (rule exI)
next
  have "\<forall>h. helperAdapter h this (args @ [JBool b])
        = Inl (JsError (''Cannot create property '' @ quoted ''data'' @ '' on boolean''))"
    by (simp add: helperAdapter_def getProp_def setProp_def typeofName_def)
  then show "\<exists>m. \<forall>h. helperAdapter h this (args @ [JBool b]) = Inl (JsError m)"
    by (rule exI)
  have "\<forall>h. helperAdapter h this (args @ [JNum x])
        = Inl (JsError (''Cannot create property '' @ quoted ''data'' @ '' on number''))"
    by (simp add: helperAdapter_def getProp_def setProp_def typeofName_def)
  then show "\<exists>m. \<forall>h. helperAdapter h this (args @ [JNum x]) = Inl (JsError m)"
    by (rule exI)
  have "\<forall>h. helperAdapter h this (args @ [JStr str])
        = Inl (JsError (''Cannot create property '' @ quoted ''data'' @ '' on string''))"
    by (simp add: helperAdapter_def getProp_def setProp_def typeofName_def)
  then show "\<exists>m. \<forall>h. helperAdapter h this (args @ [JStr str]) = Inl (JsError m)"
    by (rule exI)
  show "helperAdapter helper this []
        = Inl (JsError (''Cannot read properties of undefined (reading '' @ quoted ''data'' @ '')''))"
    by (simp add: helperAdapter_def getProp_def)
  show "helperAdapter helper this (args @ [JUndefined])
        = Inl (JsError (''Cannot read properties of undefined (reading '' @ quoted ''data'' @ '')''))"
    by (simp add: helperAdapter_def getProp_def)
  show "helperAdapter helper this (args @ [JNull])
        = Inl (JsError (''Cannot read properties of null (reading '' @ quoted ''data'' @ '')''))"
    by (simp add: helperAdapter_def getProp_def)
qed

theorem helperAdapter_options_witness:
  "map_of [(''hash'', JObj PlainObject [])] ''data'' = None
   \<and> helperAdapter greet JNull [JStr ''Bob'', JObj PlainObject [(''hash'', JObj PlainObject [])]]
       = greet JNull
           [JStr ''Bob'',
            JObj PlainObject [(''hash'', JObj PlainObject []),
                              (''data'', JObj PlainObject [(''hbs'', handlebars)])]]
   \<and> helperAdapter greet JNull [JStr ''Bob'', JObj PlainObject [(''hash'', JObj PlainObject [])]]
       = Inr (JStr ''hi Bob'')
   \<and> map_of [(''data'', JBool True)] ''data'' = Some (JBool True) \<and> truthy (JBool True)
   \<and> (\<exists>m. \<forall>h. helperAdapter h JNull [JStr ''Bob'', JObj PlainObject [(''data'', JBool True)]]
               = Inl (JsError m))"
proof -
  note T = helperAdapter_options
             [where helper = greet and this = JNull and args = "[JStr ''Bob'']" and kind = PlainObject]
  have a: "map_of [(''hash'', JObj PlainObject [])] ''data'' = None" by simp
  from T [where props = "[(''hash'', JObj PlainObject [])]"]
  have "map_of [(''hash'', JObj PlainObject [])] ''data'' = None \<longrightarrow>
      helperAdapter greet JNull ([JStr ''Bob''] @ [JObj PlainObject [(''hash'', JObj PlainObject [])]])
        = greet JNull ([JStr ''Bob''] @ [JObj PlainObject ([(''hash'', JObj PlainObject [])]
             @ [(''data'', JObj PlainObject [(''hbs'', handlebars)])])])"
    by (rule conjunct1 [OF conjunct2])
  then have e: "helperAdapter greet JNull ([JStr ''Bob''] @ [JObj PlainObject [(''hash'', JObj PlainObject [])]])
        = greet JNull ([JStr ''Bob''] @ [JObj PlainObject ([(''hash'', JObj PlainObject [])]
             @ [(''data'', JObj PlainObject [(''hbs'', handlebars)])])])"
    using a by (rule mp)
  have b: "map_of [(''data'', JBool True)] ''data'' = Some (JBool True) \<and> truthy (JBool True)
        \<and> (\<forall>k dprops. JBool True \<noteq> JObj k dprops)"
    by simp
  from T [where props = "[(''data'', JBool True)]" and d = "JBool True"]
  have "map_of [(''data'', JBool True)] ''data'' = Some (JBool True) \<and> truthy (JBool True)
        \<and> (\<forall>k dprops. JBool True \<noteq> JObj k dprops) \<longrightarrow>
      (\<exists>m. \<forall>h. helperAdapter h JNull ([JStr ''Bob''] @ [JObj PlainObject [(''data'', JBool True)]])
               = Inl (JsError m))"
    by (rule conjunct1 [OF conjunct2 [OF conjunct2 [OF conjunct2 [OF conjunct2]]]])
  then have f: "\<exists>m. \<forall>h. helperAdapter h JNull ([JStr ''Bob''] @ [JObj PlainObject [(''data'', JBool True)]])
               = Inl (JsError m)"
    using b by (rule mp)
  from e f a show ?thesis by (simp add: greet_def)
qed

text \<open>
  C5 as stated fails: \<^verbatim>\<open>greet\<close> called with no argument returns, its adapter called
  with no argument throws.
\<close>

theorem helperAdapter_no_options_counterexample:
  "greet JUndefined [] = Inr (JStr ''hi undefined'')
   \<and> helperAdapter greet JUndefined []
       = Inl (JsError (''Cannot read properties of undefined (reading '' @ quoted ''data'' @ '')''))"
  by (simp add: greet_def helperAdapter_def getProp_def)

lemma tryLoad_missing:
  assumes "\<not> existsSync (fileSystem st)
             (resolveDirectory (workspaceRoot st) (customHelpersFile (getConfiguration (vscodeSettings st))))"
  shows "tryLoadCustomHelpers importModule st host =
     Inr (consoleWrite
            (ConsoleWarn (''[handlebars-preview] Custom helpers file not found: ''
               @ resolveDirectory (workspaceRoot st) (customHelpersFile (getConfiguration (vscodeSettings st)))))
            host)"
  using assms by (simp add: tryLoadCustomHelpers_def Let_def)

lemma fold_registerEntry_none:
  "\<forall>(k, e) \<in> set moduleEntries. \<not> isCallable e \<Longrightarrow> fold registerEntry moduleEntries acc = acc"
proof (induction moduleEntries arbitrary: acc)
  case Nil
  show ?case by simp
next
  case (Cons entry moduleEntries)
  obtain k e where entry: "entry = (k, e)" by (cases entry)
  obtain host registered where acc: "acc = (host, registered)" by (cases acc)
  from Cons.prems entry have "\<not> isCallable e" by simp
  then have "registerEntry entry acc = acc"
    by (cases e) (simp_all add: entry acc)
  then show ?case using Cons by simp
qed

lemma defaultOrModule_falsy:
  "\<forall>d. map_of moduleEntries ''default'' = Some d \<longrightarrow> \<not> exportedTruthy d
   \<Longrightarrow> defaultOrModule moduleEntries = ExportedObject moduleEntries"
  by (simp add: defaultOrModule_def split: option.splits)

text \<open>
  C6, as the code has it. With no helpers file configured the loader registers nothing
  and shows nothing (it writes one console line). With a file configured that does not
  exist it writes a console warning and returns. The value the loader works on is the
  module's default export when that is truthy, the module namespace object otherwise.
  When that value is not an object (a truthy default export that is a number, a string,
  a boolean or a function), no helper is registered and an error message is shown. A
  default export that is \<^verbatim>\<open>null\<close> or falsy in another way makes the loader take the
  namespace object: its callable entries are registered, and when it has none a warning
  is shown, not an error. When the import throws, the error is shown and no helper is
  registered. In every case the promise of \<^verbatim>\<open>loadCustomHelpers\<close> is fulfilled, so the
  \<^verbatim>\<open>.catch\<close> of \<^verbatim>\<open>registerHelpers\<close> has nothing to handle.
\<close>

theorem loadCustomHelpers_never_rejects:
  "(customHelpersFile (getConfiguration (vscodeSettings st)) = [] \<longrightarrow>
      loadCustomHelpers importModule st host
        = Inr (consoleWrite (ConsoleLog ''[handlebars-preview] No custom helpers file configured'') host))
   \<and> (customHelpersFile (getConfiguration (vscodeSettings st)) \<noteq> []
        \<and> \<not> existsSync (fileSystem st)
              (resolveDirectory (workspaceRoot st) (customHelpersFile (getConfiguration (vscodeSettings st))))
      \<longrightarrow> loadCustomHelpers importModule st host
        = Inr (consoleWrite
                 (ConsoleWarn (''[handlebars-preview] Custom helpers file not found: ''
                    @ resolveDirectory (workspaceRoot st)
                        (customHelpersFile (getConfiguration (vscodeSettings st)))))
                 host))
   \<and> (customHelpersFile (getConfiguration (vscodeSettings st)) \<noteq> []
        \<and> existsSync (fileSystem st)
              (resolveDirectory (workspaceRoot st) (customHelpersFile (getConfiguration (vscodeSettings st))))
        \<and> importModule (resolveDirectory (workspaceRoot st)
              (customHelpersFile (getConfiguration (vscodeSettings st)))) = Inr moduleEntries
        \<and> \<not> isNonNullObject (defaultOrModule moduleEntries)
      \<longrightarrow> (\<exists>host'. loadCustomHelpers importModule st host = Inr host'
             \<and> helperTable host' = helperTable host
             \<and> notifications host' = notifications host @ [ShouldExportAnObject]
             \<and> severityOf ShouldExportAnObject = Error))
   \<and> (customHelpersFile (getConfiguration (vscodeSettings st)) \<noteq> []
        \<and> existsSync (fileSystem st)
              (resolveDirectory (workspaceRoot st) (customHelpersFile (getConfiguration (vscodeSettings st))))
        \<and> importModule (resolveDirectory (workspaceRoot st)
              (customHelpersFile (getConfiguration (vscodeSettings st)))) = Inl e
      \<longrightarrow> (\<exists>host'. loadCustomHelpers importModule st host = Inr host'
             \<and> helperTable host' = helperTable host
             \<and> notifications host' = notifications host @ [FailedToLoad (errorMessage e)]))
   \<and> (customHelpersFile (getConfiguration (vscodeSettings st)) \<noteq> []
        \<and> existsSync (fileSystem st)
              (resolveDirectory (workspaceRoot st) (customHelpersFile (getConfiguration (vscodeSettings st))))
        \<and> importModule (resolveDirectory (workspaceRoot st)
              (customHelpersFile (getConfiguration (vscodeSettings st)))) = Inr moduleEntries
        \<and> (\<forall>d. map_of moduleEntries ''default'' = Some d \<longrightarrow> \<not> exportedTruthy d)
      \<longrightarrow> loadCustomHelpers importModule st host
            = Inr (showMessage
                     (if snd (fold registerEntry moduleEntries (host, [])) \<noteq> []
                      then RegisteredCustomHelpers (snd (fold registerEntry moduleEntries (host, [])))
                      else NoValidHelperFunctions)
                     (fst (fold registerEntry moduleEntries (host, []))))
          \<and> ((\<forall>(k, e) \<in> set moduleEntries. \<not> isCallable e)
               \<longrightarrow> loadCustomHelpers importModule st host
                     = Inr (showMessage NoValidHelperFunctions host)
                   \<and> severityOf NoValidHelperFunctions = Warning))
   \<and> (\<exists>host'. loadCustomHelpers importModule st host = Inr host')
   \<and> (\<exists>host'. registerHelpers importModule st host = host'
         \<and> loadCustomHelpers importModule st host = Inr host')"
proof (intro conjI impI)
  assume "customHelpersFile (getConfiguration (vscodeSettings st)) = []"
  then show "loadCustomHelpers importModule st host
        = Inr (consoleWrite (ConsoleLog ''[handlebars-preview] No custom helpers file configured'') host)"
    by (simp add: loadCustomHelpers_def)
next
  assume a: "customHelpersFile (getConfiguration (vscodeSettings st)) \<noteq> []
        \<and> \<not> existsSync (fileSystem st)
              (resolveDirectory (workspaceRoot st) (customHelpersFile (getConfiguration (vscodeSettings st))))"
  then show "loadCustomHelpers importModule st host
        = Inr (consoleWrite
                 (ConsoleWarn (''[handlebars-preview] Custom helpers file not found: ''
                    @ resolveDirectory (workspaceRoot st)
                        (customHelpersFile (getConfiguration (vscodeSettings st)))))
                 host)"
    by (simp add: loadCustomHelpers_def tryLoad_missing)
next
  assume a: "customHelpersFile (getConfiguration (vscodeSettings st)) \<noteq> []
        \<and> existsSync (fileSystem st)
              (resolveDirectory (workspaceRoot st) (customHelpersFile (getConfiguration (vscodeSettings st))))
        \<and> importModule (resolveDirectory (workspaceRoot st)
              (customHelpersFile (getConfiguration (vscodeSettings st)))) = Inr moduleEntries
        \<and> \<not> isNonNullObject (defaultOrModule moduleEntries)"
  then show "\<exists>host'. loadCustomHelpers importModule st host = Inr host'
             \<and> helperTable host' = helperTable host
             \<and> notifications host' = notifications host @ [ShouldExportAnObject]
             \<and> severityOf ShouldExportAnObject = Error"
    by (simp add: loadCustomHelpers_def tryLoadCustomHelpers_def Let_def consoleWrite_def
        showMessage_def)
next
  assume a: "customHelpersFile (getConfiguration (vscodeSettings st)) \<noteq> []
        \<and> existsSync (fileSystem st)
              (resolveDirectory (workspaceRoot st) (customHelpersFile (getConfiguration (vscodeSettings st))))
        \<and> importModule (resolveDirectory (workspaceRoot st)
              (customHelpersFile (getConfiguration (vscodeSettings st)))) = Inl e"
  then show "\<exists>host'. loadCustomHelpers importModule st host = Inr host'
             \<and> helperTable host' = helperTable host
             \<and> notifications host' = notifications host @ [FailedToLoad (errorMessage e)]"
    by (simp add: loadCustomHelpers_def tryLoadCustomHelpers_def Let_def consoleWrite_def
        showMessage_def)
next
  assume a: "customHelpersFile (getConfiguration (vscodeSettings st)) \<noteq> []
        \<and> existsSync (fileSystem st)
              (resolveDirectory (workspaceRoot st) (customHelpersFile (getConfiguration (vscodeSettings st))))
        \<and> importModule (resolveDirectory (workspaceRoot st)
              (customHelpersFile (getConfiguration (vscodeSettings st)))) = Inr moduleEntries
        \<and> (\<forall>d. map_of moduleEntries ''default'' = Some d \<longrightarrow> \<not> exportedTruthy d)"
  then have d: "defaultOrModule moduleEntries = ExportedObject moduleEntries"
    by (intro defaultOrModule_falsy) simp
  show g: "loadCustomHelpers importModule st host
            = Inr (showMessage
                     (if snd (fold registerEntry moduleEntries (host, [])) \<noteq> []
                      then RegisteredCustomHelpers (snd (fold registerEntry moduleEntries (host, [])))
                      else NoValidHelperFunctions)
                     (fst (fold registerEntry moduleEntries (host, []))))"
    using a
    by (simp add: loadCustomHelpers_def tryLoadCustomHelpers_def Let_def d split: prod.splits)
  {
    assume "\<forall>(k, e) \<in> set moduleEntries. \<not> isCallable e"
    then have "fold registerEntry moduleEntries (host, []) = (host, [])"
      by (rule fold_registerEntry_none)
    with g show "loadCustomHelpers importModule st host = Inr (showMessage NoValidHelperFunctions host)"
      by simp
    show "severityOf NoValidHelperFunctions = Warning" by simp
  }
next
  show t: "\<exists>host'. loadCustomHelpers importModule st host = Inr host'"
    by (simp add: loadCustomHelpers_def split: sum.splits)
  then show "\<exists>host'. registerHelpers importModule st host = host'
         \<and> loadCustomHelpers importModule st host = Inr host'"
    by (auto simp add: registerHelpers_def)
qed

theorem loadCustomHelpers_never_rejects_witness:
  "customHelpersFile (getConfiguration (vscodeSettings demoProvider)) = []
   \<and> loadCustomHelpers importNumber demoProvider freshHost
       = Inr (consoleWrite (ConsoleLog ''[handlebars-preview] No custom helpers file configured'') freshHost)
   \<and> \<not> existsSync (fileSystem demoProviderMissingHelpers) ''/ws/nowhere.js''
   \<and> loadCustomHelpers importNumber demoProviderMissingHelpers freshHost
       = Inr (consoleWrite (ConsoleWarn ''[handlebars-preview] Custom helpers file not found: /ws/nowhere.js'') freshHost)
   \<and> existsSync (fileSystem demoProviderWithHelpers) ''/ws/helpers.js''
   \<and> \<not> isNonNullObject (defaultOrModule [(''default'', ExportedValue (JNum 42))])
   \<and> (\<exists>host'. loadCustomHelpers importNumber demoProviderWithHelpers freshHost = Inr host'
          \<and> helperTable host' = helperTable freshHost
          \<and> notifications host' = notifications freshHost @ [ShouldExportAnObject]
          \<and> severityOf ShouldExportAnObject = Error)
   \<and> loadCustomHelpers importNull demoProviderWithHelpers freshHost
       = Inr (showMessage NoValidHelperFunctions freshHost)"
proof -
  let ?file = "\<lambda>st. customHelpersFile (getConfiguration (vscodeSettings st))"
  let ?path = "\<lambda>st. resolveDirectory (workspaceRoot st) (?file st)"
  have c0: "?file demoProvider = []"
    by (simp add: demoProvider_def demoSettings_def getConfiguration_def)
  from loadCustomHelpers_never_rejects
         [where st = demoProvider and importModule = importNumber and host = freshHost]
  have "?file demoProvider = [] \<longrightarrow>
      loadCustomHelpers importNumber demoProvider freshHost
        = Inr (consoleWrite (ConsoleLog ''[handlebars-preview] No custom helpers file configured'') freshHost)"
    by (rule conjunct1)
  then have r0: "loadCustomHelpers importNumber demoProvider freshHost
        = Inr (consoleWrite (ConsoleLog ''[handlebars-preview] No custom helpers file configured'') freshHost)"
    using c0 by (rule mp)
  have f1: "?file demoProviderMissingHelpers = ''nowhere.js''"
    by (simp add: demoProviderMissingHelpers_def demoProvider_def demoSettings_def
        getConfiguration_def)
  have p1: "?path demoProviderMissingHelpers = ''/ws/nowhere.js''"
    by code_simp
  have q1: "resolveDirectory (workspaceRoot demoProviderMissingHelpers) ''nowhere.js'' = ''/ws/nowhere.js''"
    by code_simp
  have e1: "\<not> existsSync (fileSystem demoProviderMissingHelpers) ''/ws/nowhere.js''"
    by code_simp
  have h1: "?file demoProviderMissingHelpers \<noteq> []
        \<and> \<not> existsSync (fileSystem demoProviderMissingHelpers) (?path demoProviderMissingHelpers)"
    using e1 by (simp add: f1 q1)
  from loadCustomHelpers_never_rejects
         [where st = demoProviderMissingHelpers and importModule = importNumber and host = freshHost]
  have "?file demoProviderMissingHelpers \<noteq> []
        \<and> \<not> existsSync (fileSystem demoProviderMissingHelpers) (?path demoProviderMissingHelpers)
      \<longrightarrow> loadCustomHelpers importNumber demoProviderMissingHelpers freshHost
        = Inr (consoleWrite
                 (ConsoleWarn (''[handlebars-preview] Custom helpers file not found: '' @ ?path demoProviderMissingHelpers))
                 freshHost)"
    by (rule conjunct1 [OF conjunct2])
  then have "loadCustomHelpers importNumber demoProviderMissingHelpers freshHost
        = Inr (consoleWrite
                 (ConsoleWarn (''[handlebars-preview] Custom helpers file not found: '' @ ?path demoProviderMissingHelpers))
                 freshHost)"
    using h1 by (rule mp)
  then have r1: "loadCustomHelpers importNumber demoProviderMissingHelpers freshHost
       = Inr (consoleWrite (ConsoleWarn ''[handlebars-preview] Custom helpers file not found: /ws/nowhere.js'') freshHost)"
    by (simp add: p1)
  have f2: "?file demoProviderWithHelpers = ''helpers.js''"
    by (simp add: demoProviderWithHelpers_def demoProvider_def demoSettings_def
        getConfiguration_def)
  have p2: "?path demoProviderWithHelpers = ''/ws/helpers.js''"
    by code_simp
  have q2: "resolveDirectory (workspaceRoot demoProviderWithHelpers) ''helpers.js'' = ''/ws/helpers.js''"
    by code_simp
  have e2: "existsSync (fileSystem demoProviderWithHelpers) ''/ws/helpers.js''"
    by code_simp
  have i2: "importNumber ''/ws/helpers.js'' = Inr [(''default'', ExportedValue (JNum 42))]"
    by (simp add: importNumber_def)
  have n2: "\<not> isNonNullObject (defaultOrModule [(''default'', ExportedValue (JNum 42))])"
    by (simp add: defaultOrModule_def)
  have h2: "?file demoProviderWithHelpers \<noteq> []
        \<and> existsSync (fileSystem demoProviderWithHelpers) (?path demoProviderWithHelpers)
        \<and> importNumber (?path demoProviderWithHelpers) = Inr [(''default'', ExportedValue (JNum 42))]
        \<and> \<not> isNonNullObject (defaultOrModule [(''default'', ExportedValue (JNum 42))])"
    using e2 i2 n2 by (simp add: f2 q2)
  from loadCustomHelpers_never_rejects
         [where st = demoProviderWithHelpers and importModule = importNumber and host = freshHost
            and moduleEntries = "[(''default'', ExportedValue (JNum 42))]"]
  have "?file demoProviderWithHelpers \<noteq> []
        \<and> existsSync (fileSystem demoProviderWithHelpers) (?path demoProviderWithHelpers)
        \<and> importNumber (?path demoProviderWithHelpers) = Inr [(''default'', ExportedValue (JNum 42))]
        \<and> \<not> isNonNullObject (defaultOrModule [(''default'', ExportedValue (JNum 42))])
      \<longrightarrow> (\<exists>host'. loadCustomHelpers importNumber demoProviderWithHelpers freshHost = Inr host'
          \<and> helperTable host' = helperTable freshHost
          \<and> notifications host' = notifications freshHost @ [ShouldExportAnObject]
          \<and> severityOf ShouldExportAnObject = Error)"
    by (rule conjunct1 [OF conjunct2 [OF conjunct2]])
  then have r2: "\<exists>host'. loadCustomHelpers importNumber demoProviderWithHelpers freshHost = Inr host'
          \<and> helperTable host' = helperTable freshHost
          \<and> notifications host' = notifications freshHost @ [ShouldExportAnObject]
          \<and> severityOf ShouldExportAnObject = Error"
    using h2 by (rule mp)
  have i3: "importNull ''/ws/helpers.js'' = Inr [(''default'', ExportedValue JNull)]"
    by (simp add: importNull_def)
  have h3: "?file demoProviderWithHelpers \<noteq> []
        \<and> existsSync (fileSystem demoProviderWithHelpers) (?path demoProviderWithHelpers)
        \<and> importNull (?path demoProviderWithHelpers) = Inr [(''default'', ExportedValue JNull)]
        \<and> (\<forall>d. map_of [(''default'', ExportedValue JNull)] ''default'' = Some d \<longrightarrow> \<not> exportedTruthy d)"
    using e2 i3 by (simp add: f2 q2)
  have nc: "\<forall>(k, e) \<in> set [(''default'', ExportedValue JNull)]. \<not> isCallable e"
    by simp
  from loadCustomHelpers_never_rejects
         [where st = demoProviderWithHelpers and importModule = importNull and host = freshHost
            and moduleEntries = "[(''default'', ExportedValue JNull)]"]
  have "?file demoProviderWithHelpers \<noteq> []
        \<and> existsSync (fileSystem demoProviderWithHelpers) (?path demoProviderWithHelpers)
        \<and> importNull (?path demoProviderWithHelpers) = Inr [(''default'', ExportedValue JNull)]
        \<and> (\<forall>d. map_of [(''default'', ExportedValue JNull)] ''default'' = Some d \<longrightarrow> \<not> exportedTruthy d)
      \<longrightarrow> loadCustomHelpers importNull demoProviderWithHelpers freshHost
            = Inr (showMessage
                     (if snd (fold registerEntry [(''default'', ExportedValue JNull)] (freshHost, [])) \<noteq> []
                      then RegisteredCustomHelpers
                             (snd (fold registerEntry [(''default'', ExportedValue JNull)] (freshHost, [])))
                      else NoValidHelperFunctions)
                     (fst (fold registerEntry [(''default'', ExportedValue JNull)] (freshHost, []))))
          \<and> ((\<forall>(k, e) \<in> set [(''default'', ExportedValue JNull)]. \<not> isCallable e)
               \<longrightarrow> loadCustomHelpers importNull demoProviderWithHelpers freshHost
                     = Inr (showMessage NoValidHelperFunctions freshHost)
                   \<and> severityOf NoValidHelperFunctions = Warning)"
    by (rule conjunct1 [OF conjunct2 [OF conjunct2 [OF conjunct2 [OF conjunct2]]]])
  then have "(\<forall>(k, e) \<in> set [(''default'', ExportedValue JNull)]. \<not> isCallable e)
               \<longrightarrow> loadCustomHelpers importNull demoProviderWithHelpers freshHost
                     = Inr (showMessage NoValidHelperFunctions freshHost)
                   \<and> severityOf NoValidHelperFunctions = Warning"
    using h3 by (rule mp [THEN conjunct2])
  then have r3: "loadCustomHelpers importNull demoProviderWithHelpers freshHost
                     = Inr (showMessage NoValidHelperFunctions freshHost)"
    using nc by (rule mp [THEN conjunct1])
  from c0 r0 e1 r1 e2 n2 r2 r3 show ?thesis by (intro conjI)
qed

text \<open>
  C6 as stated fails for a module whose export is \<^verbatim>\<open>null\<close>: the export is not a
  non-null object, and the loader shows the warning that no helper function was found,
  not an error.
\<close>

theorem loadCustomHelpers_null_export_counterexample:
  "importNull ''/ws/helpers.js'' = Inr [(''default'', ExportedValue JNull)]
   \<and> \<not> isNonNullObject (ExportedValue JNull)
   \<and> \<not> isl (loadCustomHelpers importNull demoProviderWithHelpers freshHost)
   \<and> notifications (projr (loadCustomHelpers importNull demoProviderWithHelpers freshHost))
       = [NoValidHelperFunctions]
   \<and> severityOf NoValidHelperFunctions = Warning"
proof -
  have f: "customHelpersFile (getConfiguration (vscodeSettings demoProviderWithHelpers)) = ''helpers.js''"
    by (simp add: demoProviderWithHelpers_def demoProvider_def demoSettings_def
        getConfiguration_def)
  have q: "resolveDirectory (workspaceRoot demoProviderWithHelpers) ''helpers.js'' = ''/ws/helpers.js''"
    by code_simp
  have e: "existsSync (fileSystem demoProviderWithHelpers) ''/ws/helpers.js''"
    by code_simp
  have "loadCustomHelpers importNull demoProviderWithHelpers freshHost
          = Inr (showMessage NoValidHelperFunctions freshHost)"
    using e
    by (simp add: loadCustomHelpers_def tryLoadCustomHelpers_def Let_def f q importNull_def
        defaultOrModule_def)
  then show ?thesis
    by (simp add: importNull_def showMessage_def freshHost_def)
qed


section \<open>Scanning twice\<close>

lemma getTemplates_acc_all:
  fixes dummy :: "templateRecord list"
  shows "\<forall>acc. getTemplatesRecursively ws dir n acc base = acc @ getTemplatesRecursively ws dir n [] base"
    and "\<forall>acc. forEachTemplate ws dir files acc base = acc @ forEachTemplate ws dir files [] base"
proof (induction ws dir n dummy base and ws dir files dummy base
       rule: getTemplatesRecursively_forEachTemplate.induct)
  case (1 ws dir files templates baseDir)
  show ?case
  proof
    fix acc
    show "getTemplatesRecursively ws dir (Dir files) acc baseDir
            = acc @ getTemplatesRecursively ws dir (Dir files) [] baseDir"
      unfolding getTemplatesRecursively.simps by (rule "1.IH" [rule_format])
  qed
next
  case (4 ws dir fl n files templates baseDir)
  let ?p = "join dir fl"
  show ?case
  proof (cases "statIsDirectory n")
    case (Inl e)
    have "forEachTemplate ws dir ((fl, n) # files) acc baseDir = acc" for acc
      by (simp add: Inl)
    then show ?thesis by simp
  next
    case (Inr isDirectory)
    show ?thesis
    proof (cases isDirectory)
      case True
      have step: "forEachTemplate ws dir ((fl, n) # files) acc baseDir
            = forEachTemplate ws dir files (getTemplatesRecursively ws ?p n acc baseDir) baseDir" for acc
        by (simp add: Inr True)
      have ih1: "getTemplatesRecursively ws ?p n acc baseDir
            = acc @ getTemplatesRecursively ws ?p n [] baseDir" for acc
        using "4.IH"(1) [OF refl Inr True] by (rule spec)
      have ih2: "forEachTemplate ws dir files acc baseDir
            = acc @ forEachTemplate ws dir files [] baseDir" for acc
        using "4.IH"(2) [OF refl Inr True] by (rule spec)
      show ?thesis
      proof
        fix acc
        have "forEachTemplate ws dir ((fl, n) # files) acc baseDir
            = forEachTemplate ws dir files (getTemplatesRecursively ws ?p n acc baseDir) baseDir"
          by (rule step)
        also have "\<dots> = getTemplatesRecursively ws ?p n acc baseDir
                         @ forEachTemplate ws dir files [] baseDir"
          by (rule ih2)
        also have "\<dots> = (acc @ getTemplatesRecursively ws ?p n [] baseDir)
                         @ forEachTemplate ws dir files [] baseDir"
          by (simp only: ih1 [of acc])
        finally have "forEachTemplate ws dir ((fl, n) # files) acc baseDir
            = (acc @ getTemplatesRecursively ws ?p n [] baseDir) @ forEachTemplate ws dir files [] baseDir" .
        moreover have "forEachTemplate ws dir ((fl, n) # files) [] baseDir
            = getTemplatesRecursively ws ?p n [] baseDir @ forEachTemplate ws dir files [] baseDir"
          by (simp only: step ih2 [of "getTemplatesRecursively ws ?p n [] baseDir"])
        ultimately show "forEachTemplate ws dir ((fl, n) # files) acc baseDir
            = acc @ forEachTemplate ws dir ((fl, n) # files) [] baseDir"
          by (simp only: append_assoc)
      qed
    next
      case False
      show ?thesis
      proof (cases "endsWith fl ''.hbs''")
        case True
        have step: "forEachTemplate ws dir ((fl, n) # files) acc baseDir
            = forEachTemplate ws dir files (acc @ [templateRecordOf ws ?p baseDir]) baseDir" for acc
          by (simp add: Inr False True)
        have ih: "forEachTemplate ws dir files acc baseDir
            = acc @ forEachTemplate ws dir files [] baseDir" for acc
          using "4.IH"(3) [OF refl Inr False True] by (rule spec)
        show ?thesis
        proof
          fix acc
          have "forEachTemplate ws dir ((fl, n) # files) acc baseDir
            = (acc @ [templateRecordOf ws ?p baseDir]) @ forEachTemplate ws dir files [] baseDir"
            by (simp only: step ih [of "acc @ [templateRecordOf ws ?p baseDir]"])
          moreover have "forEachTemplate ws dir ((fl, n) # files) [] baseDir
            = ([] @ [templateRecordOf ws ?p baseDir]) @ forEachTemplate ws dir files [] baseDir"
            by (simp only: step ih [of "[] @ [templateRecordOf ws ?p baseDir]"])
          ultimately show "forEachTemplate ws dir ((fl, n) # files) acc baseDir
            = acc @ forEachTemplate ws dir ((fl, n) # files) [] baseDir"
            by (simp only: append_assoc append_Nil)
        qed
      next
        case nohbs: False
        have step: "forEachTemplate ws dir ((fl, n) # files) acc baseDir
            = forEachTemplate ws dir files acc baseDir" for acc
          by (simp add: Inr False nohbs)
        have ih: "forEachTemplate ws dir files acc baseDir
            = acc @ forEachTemplate ws dir files [] baseDir" for acc
          using "4.IH"(4) [OF refl Inr False nohbs] by (rule spec)
        show ?thesis
        proof
          fix acc
          show "forEachTemplate ws dir ((fl, n) # files) acc baseDir
            = acc @ forEachTemplate ws dir ((fl, n) # files) [] baseDir"
            by (simp only: step ih [of acc])
        qed
      qed
    qed
  qed
qed simp_all


lemma hbsFileUnder_Cons:
  "hbsFileUnder dir (Dir ((fl, n) # files)) p f x \<longleftrightarrow>
     (statIsDirectory n = Inr False \<and> endsWith fl ''.hbs'' \<and> p = join dir fl \<and> f = fl \<and> x = n)
     \<or> hbsFileUnder (join dir fl) n p f x
     \<or> hbsFileUnder dir (Dir files) p f x"
  (is "?L \<longleftrightarrow> ?R")
proof
  assume ?L
  then show ?R
    by (cases rule: hbsFileUnder.cases) (auto intro: hbsFileUnder.intros)
next
  assume ?R
  then consider (a) "statIsDirectory n = Inr False \<and> endsWith fl ''.hbs'' \<and> p = join dir fl \<and> f = fl \<and> x = n"
    | (b) "hbsFileUnder (join dir fl) n p f x" | (c) "hbsFileUnder dir (Dir files) p f x"
    by blast
  then show ?L
  proof cases
    case a
    then show ?thesis by (auto intro: hbsFileUnder.here)
  next
    case b
    then show ?thesis by (auto intro: hbsFileUnder.below)
  next
    case c
    then show ?thesis
      by (cases rule: hbsFileUnder.cases) (auto intro: hbsFileUnder.intros)
  qed
qed

lemma hbsFileUnder_not_dir:
  "hbsFileUnder dir n p f x \<Longrightarrow> \<exists>files. n = Dir files"
  by (cases rule: hbsFileUnder.cases) auto

lemma hbsFileUnder_Nil: "\<not> hbsFileUnder dir (Dir []) p f x"
  by (auto elim: hbsFileUnder.cases)

lemma scan_set:
  fixes dummy :: "templateRecord list"
  shows "statable n \<longrightarrow> set (getTemplatesRecursively ws dir n [] base)
           = {templateRecordOf ws p base | p f x. hbsFileUnder dir n p f x}"
    and "list_all (\<lambda>(fl, n). statable n) files \<longrightarrow> set (forEachTemplate ws dir files [] base)
           = {templateRecordOf ws p base | p f x. hbsFileUnder dir (Dir files) p f x}"
proof (induction ws dir n dummy base and ws dir files dummy base
       rule: getTemplatesRecursively_forEachTemplate.induct)
  case (1 ws dir files templates baseDir)
  then show ?case by simp
next
  case (4 ws dir fl n files templates baseDir)
  let ?p = "join dir fl"
  show ?case
  proof
    assume r: "list_all (\<lambda>(fl, n). statable n) ((fl, n) # files)"
    then have rn: "statable n" and rf: "list_all (\<lambda>(fl, n). statable n) files" by simp_all
    from rn obtain b where st: "statIsDirectory n = Inr b"
      by (cases n) (auto simp add: statIsDirectory_def)
    show "set (forEachTemplate ws dir ((fl, n) # files) [] baseDir)
           = {templateRecordOf ws p baseDir | p f x. hbsFileUnder dir (Dir ((fl, n) # files)) p f x}"
    proof (cases b)
      case True
      have "set (forEachTemplate ws dir ((fl, n) # files) [] baseDir)
          = set (getTemplatesRecursively ws ?p n [] baseDir) \<union> set (forEachTemplate ws dir files [] baseDir)"
        using getTemplates_acc_all(2) [of ws dir files baseDir, rule_format,
                of "getTemplatesRecursively ws ?p n [] baseDir"]
        by (simp add: st True)
      moreover have "set (getTemplatesRecursively ws ?p n [] baseDir)
          = {templateRecordOf ws p baseDir | p f x. hbsFileUnder ?p n p f x}"
        using "4.IH"(1) [OF refl st True] rn by blast
      moreover have "set (forEachTemplate ws dir files [] baseDir)
          = {templateRecordOf ws p baseDir | p f x. hbsFileUnder dir (Dir files) p f x}"
        using "4.IH"(2) [OF refl st True] rf by blast
      ultimately show ?thesis
        using st True by (auto simp add: hbsFileUnder_Cons)
    next
      case False
      have nd: "\<not> hbsFileUnder ?p n p f x" for p f x
        using st False hbsFileUnder_not_dir [of ?p n p f x]
        by (auto simp add: statIsDirectory_def)
      show ?thesis
      proof (cases "endsWith fl ''.hbs''")
        case True
        have "set (forEachTemplate ws dir ((fl, n) # files) [] baseDir)
          = {templateRecordOf ws ?p baseDir} \<union> set (forEachTemplate ws dir files [] baseDir)"
          using getTemplates_acc_all(2) [of ws dir files baseDir, rule_format,
                  of "[templateRecordOf ws ?p baseDir]"]
          by (simp add: st False True)
        moreover have "set (forEachTemplate ws dir files [] baseDir)
          = {templateRecordOf ws p baseDir | p f x. hbsFileUnder dir (Dir files) p f x}"
          using "4.IH"(3) [OF refl st False True] rf by blast
        ultimately show ?thesis
          using st False True nd by (auto simp add: hbsFileUnder_Cons)
      next
        case nohbs: False
        have "set (forEachTemplate ws dir ((fl, n) # files) [] baseDir)
          = set (forEachTemplate ws dir files [] baseDir)"
          by (simp add: st False nohbs)
        moreover have "set (forEachTemplate ws dir files [] baseDir)
          = {templateRecordOf ws p baseDir | p f x. hbsFileUnder dir (Dir files) p f x}"
          using "4.IH"(4) [OF refl st False nohbs] rf by blast
        ultimately show ?thesis
          using st False nohbs nd by (auto simp add: hbsFileUnder_Cons)
      qed
    qed
  qed
qed (auto simp add: hbsFileUnder_Nil dest: hbsFileUnder_not_dir)

lemma sameEntries_stat: "sameEntries n n' \<Longrightarrow> statIsDirectory n' = statIsDirectory n"
  by (cases rule: sameEntries.cases) (auto simp add: statIsDirectory_def)

lemma sameEntries_sym: "sameEntries n n' \<Longrightarrow> sameEntries n' n"
proof (induction rule: sameEntries.induct)
  case (sameDir files files')
  show ?case
  proof (rule sameEntries.sameDir)
    show "\<forall>(fl, n) \<in> set files'. \<exists>n'. (fl, n') \<in> set files \<and> sameEntries n n'"
      using sameDir(2) by fastforce
    show "\<forall>(fl, n') \<in> set files. \<exists>n. (fl, n) \<in> set files' \<and> sameEntries n n'"
      using sameDir(1) by fastforce
  qed
qed (auto intro: sameEntries.intros)

lemma sameEntries_statable: "sameEntries n n' \<Longrightarrow> statable n \<Longrightarrow> statable n'"
proof (induction rule: sameEntries.induct)
  case (sameDir files files')
  have "statable n'" if "(fl, n') \<in> set files'" for fl n'
  proof -
    from sameDir(2) that obtain n where n: "(fl, n) \<in> set files" "statable n \<longrightarrow> statable n'"
      by fastforce
    from sameDir(3) n(1) have "statable n" by (auto simp add: list_all_iff)
    with n(2) show ?thesis by simp
  qed
  then show ?case by (auto simp add: list_all_iff)
qed simp_all

lemma sameEntries_hbsFileUnder:
  "hbsFileUnder dir n p f x \<Longrightarrow> sameEntries n n' \<Longrightarrow> \<exists>x'. hbsFileUnder dir n' p f x'"
proof (induction arbitrary: n' rule: hbsFileUnder.induct)
  case (here fl n files dir)
  from here(4) obtain files' where n': "n' = Dir files'"
    and fw: "\<forall>(fl, n) \<in> set files. \<exists>n'. (fl, n') \<in> set files' \<and> sameEntries n n'"
    by (cases rule: sameEntries.cases) auto
  from fw here(1) obtain m where m: "(fl, m) \<in> set files'" "sameEntries n m" by fastforce
  have "statIsDirectory m = Inr False" using sameEntries_stat [OF m(2)] here(2) by simp
  then have "hbsFileUnder dir (Dir files') (join dir fl) fl m"
    using m(1) here(3) by (intro hbsFileUnder.here)
  then show ?case using n' by blast
next
  case (below sub d files dir filePath fl n)
  from below(4) obtain files' where n': "n' = Dir files'"
    and fw: "\<forall>(fl, n) \<in> set files. \<exists>n'. (fl, n') \<in> set files' \<and> sameEntries n n'"
    by (cases rule: sameEntries.cases) auto
  from fw below(1) obtain m where m: "(sub, m) \<in> set files'" "sameEntries d m" by fastforce
  from below(3) [OF m(2)] obtain x' where "hbsFileUnder (join dir sub) m filePath fl x'" by blast
  then have "hbsFileUnder dir (Dir files') filePath fl x'"
    using m(1) by (intro hbsFileUnder.below)
  then show ?case using n' by blast
qed


lemma sameEntries_refl: "sameEntries n n"
proof (induction n)
  case (Dir files)
  show ?case
  proof (rule sameEntries.sameDir)
    show "\<forall>(fl, n) \<in> set files. \<exists>n'. (fl, n') \<in> set files \<and> sameEntries n n'"
      using Dir by fastforce
    then show "\<forall>(fl, n') \<in> set files. \<exists>n. (fl, n) \<in> set files \<and> sameEntries n n'"
      using Dir by fastforce
  qed
qed (auto intro: sameEntries.intros)

lemma getTemplatesIn_acc:
  "getTemplatesIn st dir acc = acc @ getTemplatesIn st dir []"
proof (cases "resolve (fileSystem st) dir")
  case None
  then show ?thesis by (simp add: getTemplatesIn_def)
next
  case (Some n)
  have "getTemplatesRecursively (workspaceRoot st) dir n acc dir
          = acc @ getTemplatesRecursively (workspaceRoot st) dir n [] dir"
    using getTemplates_acc_all(1) [of "workspaceRoot st" dir n dir] by (rule spec)
  then show ?thesis by (simp add: getTemplatesIn_def Some)
qed

lemma set_fold_getTemplatesIn:
  "set (fold (getTemplatesIn st) dirs acc)
     = set acc \<union> (\<Union>dir \<in> set dirs. set (getTemplatesIn st dir []))"
proof (induction dirs arbitrary: acc)
  case Nil
  show ?case by simp
next
  case (Cons d dirs)
  have "set (getTemplatesIn st d acc) = set acc \<union> set (getTemplatesIn st d [])"
    using getTemplatesIn_acc [of st d acc] by (metis set_append)
  then show ?case
    by (simp add: Cons.IH Un_assoc)
qed

lemma set_getAvailableTemplates:
  "set (getAvailableTemplates st)
     = {t \<in> (\<Union>dir \<in> set (getTemplateDirectories st). set (getTemplatesIn st dir [])).
          \<not> includes_str (name t) ''components/''}"
  by (auto simp add: getAvailableTemplates_def set_fold_getTemplatesIn)

lemma onDidReceiveMessage_frame:
  assumes "onDidReceiveMessage compileAndRun st request = Inr st'"
  shows "workspaceRoot st' = workspaceRoot st \<and> fileSystem st' = fileSystem st
       \<and> vscodeSettings st' = vscodeSettings st"
proof (cases request)
  case GetTemplates
  then show ?thesis using assms
    by (auto simp add: onDidReceiveMessage_def postToPanel_def postMessage_def split: if_splits)
next
  case (RenderTemplate templateName data)
  obtain r st1 where r: "renderTemplate compileAndRun st templateName (js_or data emptyObject) = (r, st1)"
    by (cases "renderTemplate compileAndRun st templateName (js_or data emptyObject)")
  have f: "workspaceRoot st1 = workspaceRoot st \<and> fileSystem st1 = fileSystem st
       \<and> vscodeSettings st1 = vscodeSettings st"
    using renderTemplate_frame [OF r] by (auto simp add: registerPartials_frame)
  show ?thesis using assms f
    by (auto simp add: onDidReceiveMessage_def RenderTemplate r Let_def postToPanel_def
        postMessage_def saveTemplateData_def split: sum.splits if_splits)
next
  case (GetTemplateData templateName)
  then show ?thesis using assms
    by (auto simp add: onDidReceiveMessage_def postToPanel_def postMessage_def split: if_splits)
next
  case (ClearTemplateData templateName)
  then show ?thesis using assms
    by (auto simp add: onDidReceiveMessage_def postToPanel_def postMessage_def
        clearTemplateData_def split: if_splits)
next
  case OtherCommand
  then show ?thesis using assms by (simp add: onDidReceiveMessage_def)
qed

lemma sameEntries_Dir_left:
  assumes "sameEntries (Dir files) n'"
  obtains files' where "n' = Dir files'"
    and "\<forall>(fl, n) \<in> set files. \<exists>n'. (fl, n') \<in> set files' \<and> sameEntries n n'"
    and "\<forall>(fl, n') \<in> set files'. \<exists>n. (fl, n) \<in> set files \<and> sameEntries n n'"
  using assms by (cases rule: sameEntries.cases) auto

lemma sameEntries_not_Dir:
  assumes "sameEntries n n'" and "\<forall>files. n \<noteq> Dir files"
  shows "\<forall>files'. n' \<noteq> Dir files'"
  using assms by (cases rule: sameEntries.cases) auto

lemma sameEntries_map_of:
  assumes d: "distinct (map fst files)"
    and fw: "\<forall>(fl, n) \<in> set files. \<exists>n'. (fl, n') \<in> set files' \<and> sameEntries n n'"
    and bw: "\<forall>(fl, n') \<in> set files'. \<exists>n. (fl, n) \<in> set files \<and> sameEntries n n'"
  shows "rel_option sameEntries (map_of files seg) (map_of files' seg)"
proof (cases "map_of files seg")
  case None
  then have "seg \<notin> fst ` set files" by (simp add: map_of_eq_None_iff)
  with bw have "seg \<notin> fst ` set files'" by force
  then have "map_of files' seg = None" by (simp add: map_of_eq_None_iff)
  with None show ?thesis by simp
next
  case (Some n)
  then have m: "(seg, n) \<in> set files" by (rule map_of_SomeD)
  with fw obtain n1 where "(seg, n1) \<in> set files'" by fastforce
  then have "seg \<in> fst ` set files'" by force
  then obtain n' where s': "map_of files' seg = Some n'"
    by (cases "map_of files' seg") (auto simp add: map_of_eq_None_iff)
  then have "(seg, n') \<in> set files'" by (rule map_of_SomeD)
  with bw obtain n0 where n0: "(seg, n0) \<in> set files" "sameEntries n0 n'" by fastforce
  from d m n0(1) have "n0 = n" by (meson eq_key_imp_eq_value)
  with n0(2) Some s' show ?thesis by simp
qed

lemma walkPath_sameEntries:
  assumes "list_all2 sameEntries stack stack'" and "list_all distinctNames stack"
  shows "rel_option (\<lambda>n n'. sameEntries n n' \<and> distinctNames n)
           (walkPath stack segs) (walkPath stack' segs)"
  using assms
proof (induction stack segs arbitrary: stack' rule: walkPath.induct)
  case (1 segs)
  then show ?case by simp
next
  case (2 cur up)
  then show ?case by (auto simp add: list_all2_Cons1)
next
  case (3 cur up seg segs)
  from "3.prems"(1) obtain cur' up' where st': "stack' = cur' # up'"
    and c: "sameEntries cur cur'" and u: "list_all2 sameEntries up up'"
    by (auto simp add: list_all2_Cons1)
  show ?case
  proof (cases cur)
    case (Dir files)
    from c Dir obtain files' where cur': "cur' = Dir files'"
      and fw: "\<forall>(fl, n) \<in> set files. \<exists>n'. (fl, n') \<in> set files' \<and> sameEntries n n'"
      and bw: "\<forall>(fl, n') \<in> set files'. \<exists>n. (fl, n) \<in> set files \<and> sameEntries n n'"
      by (auto elim: sameEntries_Dir_left)
    from "3.prems"(2) Dir have dn: "distinct (map fst files)"
      and dl: "list_all (\<lambda>(file, n). distinctNames n) files" and du: "list_all distinctNames up"
      by simp_all
    show ?thesis
    proof (cases "seg = [] \<or> seg = ''.''")
      case True
      then show ?thesis
        using "3.IH"(1) [OF Dir True "3.prems"(1) [unfolded st'] "3.prems"(2)] Dir cur' st' True
        by simp
    next
      case False
      show ?thesis
      proof (cases "seg = ''..''")
        case True
        have r: "list_all2 sameEntries (if up = [] then [cur] else up) (if up' = [] then [cur'] else up')"
          using c u by (auto simp add: list_all2_Nil list_all2_Nil2)
        have d: "list_all distinctNames (if up = [] then [cur] else up)"
          using "3.prems"(2) by simp
        have e: "(up' = []) = (up = [])"
          using u by (cases up; cases up') simp_all
        show ?thesis
          using "3.IH"(2) [OF Dir False True r d] Dir cur' st' False True
          by (cases "up = []") (simp_all add: e)
      next
        case notup: False
        have ro: "rel_option sameEntries (map_of files seg) (map_of files' seg)"
          by (rule sameEntries_map_of [OF dn fw bw])
        show ?thesis
        proof (cases "map_of files seg")
          case None
          with ro have "map_of files' seg = None" by simp
          with None show ?thesis using Dir cur' st' False notup by simp
        next
          case (Some n)
          with ro obtain n' where s': "map_of files' seg = Some n'" and nn: "sameEntries n n'"
            by (cases "map_of files' seg") auto
          from Some have "(seg, n) \<in> set files" by (rule map_of_SomeD)
          with dl have dnn: "distinctNames n" by (auto simp add: list_all_iff)
          have r: "list_all2 sameEntries (n # cur # up) (n' # cur' # up')"
            using nn c u by simp
          have d: "list_all distinctNames (n # cur # up)"
            using dnn "3.prems"(2) by simp
          show ?thesis
            using "3.IH"(3) [OF Dir False notup Some r d] Dir cur' st' False notup Some s' by simp
        qed
      qed
    qed
  next
    case (File x)
    with sameEntries_not_Dir [OF c] have "\<forall>files'. cur' \<noteq> Dir files'" by simp
    then show ?thesis using File st' by (cases cur') simp_all
  next
    case UnreadableFile
    with sameEntries_not_Dir [OF c] have "\<forall>files'. cur' \<noteq> Dir files'" by simp
    then show ?thesis using UnreadableFile st' by (cases cur') simp_all
  next
    case UnreadableDir
    with sameEntries_not_Dir [OF c] have "\<forall>files'. cur' \<noteq> Dir files'" by simp
    then show ?thesis using UnreadableDir st' by (cases cur') simp_all
  next
    case Broken
    with sameEntries_not_Dir [OF c] have "\<forall>files'. cur' \<noteq> Dir files'" by simp
    then show ?thesis using Broken st' by (cases cur') simp_all
  qed
qed


lemma resolve_sameEntries:
  assumes "distinctNames fs" and "sameEntries fs fs'"
  shows "rel_option (\<lambda>n n'. sameEntries n n' \<and> distinctNames n) (resolve fs p) (resolve fs' p)"
  using walkPath_sameEntries [of "[fs]" "[fs']" "splitSegments [] p"] assms
  by (simp add: resolve_def)

lemma sameEntries_Broken: "sameEntries n n' \<Longrightarrow> (n' = Broken) = (n = Broken)"
  by (cases rule: sameEntries.cases) auto

lemma existsSync_sameEntries:
  assumes "distinctNames fs" and "sameEntries fs fs'"
  shows "existsSync fs' p = existsSync fs p"
proof (cases "resolve fs p")
  case None
  with resolve_sameEntries [OF assms, of p] have "resolve fs' p = None" by simp
  with None show ?thesis by (simp add: existsSync_def)
next
  case (Some n)
  with resolve_sameEntries [OF assms, of p] obtain n'
    where n': "resolve fs' p = Some n'" and s: "sameEntries n n'"
    by (cases "resolve fs' p") auto
  have "(case n' of Broken \<Rightarrow> False | _ \<Rightarrow> True) = (case n of Broken \<Rightarrow> False | _ \<Rightarrow> True)"
    using sameEntries_Broken [OF s] by (cases n; cases n') simp_all
  then show ?thesis by (simp add: existsSync_def Some n')
qed

lemma walk_order:
  assumes "statable tree" and "sameEntries tree tree'"
  shows "set (getTemplatesRecursively ws dir tree' [] base)
          = set (getTemplatesRecursively ws dir tree [] base)"
proof -
  have r': "statable tree'" using assms sameEntries_statable by blast
  have "(\<exists>x. hbsFileUnder dir tree' p f x) \<longleftrightarrow> (\<exists>x. hbsFileUnder dir tree p f x)" for p f
    using assms(2) sameEntries_hbsFileUnder sameEntries_sym by blast
  then have "{templateRecordOf ws p base | p f x. hbsFileUnder dir tree' p f x}
           = {templateRecordOf ws p base | p f x. hbsFileUnder dir tree p f x}"
    by blast
  then show ?thesis
    using scan_set(1) [of tree ws dir base] scan_set(1) [of tree' ws dir base] assms(1) r' by simp
qed

lemma scan_order:
  assumes dn: "distinctNames (fileSystem st)"
    and se: "sameEntries (fileSystem st) (fileSystem st2)"
    and ws: "workspaceRoot st2 = workspaceRoot st"
    and vs: "vscodeSettings st2 = vscodeSettings st"
    and stat: "\<forall>dir \<in> set (getTemplateDirectories st).
                 \<forall>n. resolve (fileSystem st) dir = Some n \<longrightarrow> statable n"
  shows "set (getAvailableTemplates st2) = set (getAvailableTemplates st)"
proof -
  have ex: "existsSync (fileSystem st2) = existsSync (fileSystem st)"
    using existsSync_sameEntries [OF dn se] by (simp add: fun_eq_iff)
  have dirs: "getTemplateDirectories st2 = getTemplateDirectories st"
    by (simp add: getTemplateDirectories_def ex ws vs)
  have "set (getTemplatesIn st2 dir []) = set (getTemplatesIn st dir [])"
    if d: "dir \<in> set (getTemplateDirectories st)" for dir
  proof (cases "resolve (fileSystem st) dir")
    case None
    with resolve_sameEntries [OF dn se, of dir] have "resolve (fileSystem st2) dir = None" by simp
    with None show ?thesis by (simp add: getTemplatesIn_def)
  next
    case (Some n)
    with resolve_sameEntries [OF dn se, of dir] obtain n'
      where n': "resolve (fileSystem st2) dir = Some n'" and s: "sameEntries n n'"
      by (cases "resolve (fileSystem st2) dir") auto
    from stat d Some have "statable n" by blast
    then have "set (getTemplatesRecursively (workspaceRoot st) dir n' [] dir)
          = set (getTemplatesRecursively (workspaceRoot st) dir n [] dir)"
      using s by (rule walk_order)
    then show ?thesis by (simp add: getTemplatesIn_def Some n' ws)
  qed
  then show ?thesis
    by (simp add: set_getAvailableTemplates dirs)
qed

text \<open>
  C8, as the code has it. A request handled by the provider leaves the workspace root,
  the settings and the file system as they are, so the scan after it returns the list it
  returned before. Two providers on the same workspace and file system whose configured
  template directories resolve to the same set of existing directories, in whatever
  order and however often each is named, scan the same set of records; the directories
  scanned are exactly the configured ones that exist. The set of records found under a
  directory does not depend on the order in which its entries, and those of the
  directories below it, are enumerated, provided that no \<^verbatim>\<open>statSync\<close> in the tree
  throws; so two providers with the same workspace root and settings, on file systems
  with the same entries in whatever order, scan the same set of records, provided that
  no \<^verbatim>\<open>statSync\<close> throws under the directories scanned.
\<close>

theorem scan_twice_same_records:
  "(onDidReceiveMessage compileAndRun st request = Inr st'
      \<longrightarrow> getAvailableTemplates st' = getAvailableTemplates st)
   \<and> (workspaceRoot st2 = workspaceRoot st \<and> fileSystem st2 = fileSystem st
        \<and> set (getTemplateDirectories st2) = set (getTemplateDirectories st)
      \<longrightarrow> set (getAvailableTemplates st2) = set (getAvailableTemplates st))
   \<and> set (getTemplateDirectories st)
       = {dir \<in> resolveDirectory (workspaceRoot st)
                   ` set (templateDirectories (getConfiguration (vscodeSettings st))).
            existsSync (fileSystem st) dir}
   \<and> (statable tree \<and> sameEntries tree tree'
      \<longrightarrow> set (getTemplatesRecursively ws dir tree' [] base)
          = set (getTemplatesRecursively ws dir tree [] base))
   \<and> (distinctNames (fileSystem st) \<and> sameEntries (fileSystem st) (fileSystem st3)
        \<and> workspaceRoot st3 = workspaceRoot st \<and> vscodeSettings st3 = vscodeSettings st
        \<and> (\<forall>dir \<in> set (getTemplateDirectories st).
              \<forall>n. resolve (fileSystem st) dir = Some n \<longrightarrow> statable n)
      \<longrightarrow> set (getAvailableTemplates st3) = set (getAvailableTemplates st))"
proof (intro conjI impI)
  assume "onDidReceiveMessage compileAndRun st request = Inr st'"
  from onDidReceiveMessage_frame [OF this]
  show "getAvailableTemplates st' = getAvailableTemplates st"
    by (intro getAvailableTemplates_cong) simp_all
next
  assume a: "workspaceRoot st2 = workspaceRoot st \<and> fileSystem st2 = fileSystem st
        \<and> set (getTemplateDirectories st2) = set (getTemplateDirectories st)"
  then have "getTemplatesIn st2 = getTemplatesIn st"
    by (intro getTemplatesIn_cong) simp_all
  with a show "set (getAvailableTemplates st2) = set (getAvailableTemplates st)"
    by (simp add: set_getAvailableTemplates)
next
  show "set (getTemplateDirectories st)
       = {dir \<in> resolveDirectory (workspaceRoot st)
                   ` set (templateDirectories (getConfiguration (vscodeSettings st))).
            existsSync (fileSystem st) dir}"
    by (auto simp add: getTemplateDirectories_def)
next
  assume a: "statable tree \<and> sameEntries tree tree'"
  then show "set (getTemplatesRecursively ws dir tree' [] base)
          = set (getTemplatesRecursively ws dir tree [] base)"
    by (intro walk_order) simp_all
next
  assume a: "distinctNames (fileSystem st) \<and> sameEntries (fileSystem st) (fileSystem st3)
        \<and> workspaceRoot st3 = workspaceRoot st \<and> vscodeSettings st3 = vscodeSettings st
        \<and> (\<forall>dir \<in> set (getTemplateDirectories st).
              \<forall>n. resolve (fileSystem st) dir = Some n \<longrightarrow> statable n)"
  show "set (getAvailableTemplates st3) = set (getAvailableTemplates st)"
  proof (rule scan_order)
    show "distinctNames (fileSystem st)" using a by (rule conjunct1)
    show "sameEntries (fileSystem st) (fileSystem st3)" using a by (rule conjunct2 [THEN conjunct1])
    show "workspaceRoot st3 = workspaceRoot st"
      using a by (rule conjunct2 [THEN conjunct2, THEN conjunct1])
    show "vscodeSettings st3 = vscodeSettings st"
      using a by (rule conjunct2 [THEN conjunct2, THEN conjunct2, THEN conjunct1])
    show "\<forall>dir \<in> set (getTemplateDirectories st).
              \<forall>n. resolve (fileSystem st) dir = Some n \<longrightarrow> statable n"
      using a by (rule conjunct2 [THEN conjunct2, THEN conjunct2, THEN conjunct2])
  qed
qed

theorem scan_twice_same_records_witness:
  "workspaceRoot demoProviderReordered = workspaceRoot demoProvider
   \<and> fileSystem demoProviderReordered = fileSystem demoProvider
   \<and> set (getTemplateDirectories demoProviderReordered) = set (getTemplateDirectories demoProvider)
   \<and> getTemplateDirectories demoProvider = [''/ws/templates'']
   \<and> set (getAvailableTemplates demoProviderReordered) = set (getAvailableTemplates demoProvider)
   \<and> onDidReceiveMessage plainTextEngine demoProvider GetTemplates
       = Inr (postMessage (Templates (getAvailableTemplates demoProvider)) demoProvider)
   \<and> getAvailableTemplates (postMessage (Templates (getAvailableTemplates demoProvider)) demoProvider)
       = getAvailableTemplates demoProvider
   \<and> statable demoTemplates
   \<and> sameEntries demoTemplates demoTemplatesReversed
   \<and> set (getTemplatesRecursively ''/ws'' ''/ws/templates'' demoTemplatesReversed [] ''/ws/templates'')
       = set (getTemplatesRecursively ''/ws'' ''/ws/templates'' demoTemplates [] ''/ws/templates'')
   \<and> distinctNames (fileSystem demoProvider)
   \<and> sameEntries (fileSystem demoProvider) (fileSystem demoProviderReversed)
   \<and> set (getAvailableTemplates demoProviderReversed) = set (getAvailableTemplates demoProvider)"
proof -
  have w: "workspaceRoot demoProviderReordered = workspaceRoot demoProvider"
    by (simp add: demoProviderReordered_def)
  have f: "fileSystem demoProviderReordered = fileSystem demoProvider"
    by (simp add: demoProviderReordered_def)
  have d1: "getTemplateDirectories demoProvider = [''/ws/templates'']"
    by code_simp
  have d2: "getTemplateDirectories demoProviderReordered = [''/ws/templates'', ''/ws/templates'']"
    by code_simp
  have d: "set (getTemplateDirectories demoProviderReordered) = set (getTemplateDirectories demoProvider)"
    by (simp add: d1 d2)
  note T = scan_twice_same_records
             [where st = demoProvider and ?st2.0 = demoProviderReordered
                and compileAndRun = plainTextEngine and request = GetTemplates
                and st' = "postMessage (Templates (getAvailableTemplates demoProvider)) demoProvider"]
  from T have "workspaceRoot demoProviderReordered = workspaceRoot demoProvider
        \<and> fileSystem demoProviderReordered = fileSystem demoProvider
        \<and> set (getTemplateDirectories demoProviderReordered) = set (getTemplateDirectories demoProvider)
      \<longrightarrow> set (getAvailableTemplates demoProviderReordered) = set (getAvailableTemplates demoProvider)"
    by (rule conjunct1 [OF conjunct2])
  then have s: "set (getAvailableTemplates demoProviderReordered) = set (getAvailableTemplates demoProvider)"
    using w f d by blast
  have h: "onDidReceiveMessage plainTextEngine demoProvider GetTemplates
       = Inr (postMessage (Templates (getAvailableTemplates demoProvider)) demoProvider)"
    by (simp add: onDidReceiveMessage_def postToPanel_def demoProvider_def)
  from T have "onDidReceiveMessage plainTextEngine demoProvider GetTemplates
       = Inr (postMessage (Templates (getAvailableTemplates demoProvider)) demoProvider)
     \<longrightarrow> getAvailableTemplates (postMessage (Templates (getAvailableTemplates demoProvider)) demoProvider)
       = getAvailableTemplates demoProvider"
    by (rule conjunct1)
  then have g: "getAvailableTemplates (postMessage (Templates (getAvailableTemplates demoProvider)) demoProvider)
       = getAvailableTemplates demoProvider"
    using h by (rule mp)
  have rd: "statable demoTemplates"
    by (simp add: demoTemplates_def)
  have se: "sameEntries demoTemplates demoTemplatesReversed"
    unfolding demoTemplates_def demoTemplatesReversed_def
    by (rule sameEntries.sameDir) (auto intro: sameEntries_refl)
  from T [where tree = demoTemplates and tree' = demoTemplatesReversed and ws = "''/ws''"
            and dir = "''/ws/templates''" and base = "''/ws/templates''"]
  have "statable demoTemplates \<and> sameEntries demoTemplates demoTemplatesReversed
      \<longrightarrow> set (getTemplatesRecursively ''/ws'' ''/ws/templates'' demoTemplatesReversed [] ''/ws/templates'')
          = set (getTemplatesRecursively ''/ws'' ''/ws/templates'' demoTemplates [] ''/ws/templates'')"
    by (rule conjunct1 [OF conjunct2 [OF conjunct2 [OF conjunct2]]])
  then have o: "set (getTemplatesRecursively ''/ws'' ''/ws/templates'' demoTemplatesReversed [] ''/ws/templates'')
          = set (getTemplatesRecursively ''/ws'' ''/ws/templates'' demoTemplates [] ''/ws/templates'')"
    using rd se by blast
  have dn: "distinctNames (fileSystem demoProvider)"
    by (simp add: demoProvider_def demoFileSystem_def demoTemplates_def)
  have sp: "sameEntries (Dir [(''plan-name.hbs'', File ''plan''), (''notes.txt'', File ''n'')])
              (Dir [(''notes.txt'', File ''n''), (''plan-name.hbs'', File ''plan'')])"
    by (rule sameEntries.sameDir) (auto intro: sameEntries_refl)
  have sw: "sameEntries
              (Dir [(''templates'', demoTemplates),
                    (''partials'', Dir [(''plan-name.hbs'', File ''plan''), (''notes.txt'', File ''n'')]),
                    (''helpers.js'', File ''module.exports = 42'')])
              (Dir [(''helpers.js'', File ''module.exports = 42''),
                    (''partials'', Dir [(''notes.txt'', File ''n''), (''plan-name.hbs'', File ''plan'')]),
                    (''templates'', demoTemplatesReversed)])"
    using se sp by (intro sameEntries.sameDir) (auto intro: sameEntries_refl)
  have sf: "sameEntries (fileSystem demoProvider) (fileSystem demoProviderReversed)"
    unfolding demoProviderReversed_def demoProvider_def demoFileSystem_def
    using sw by (simp, intro sameEntries.sameDir) simp_all
  have w3: "workspaceRoot demoProviderReversed = workspaceRoot demoProvider"
    by (simp add: demoProviderReversed_def)
  have v3: "vscodeSettings demoProviderReversed = vscodeSettings demoProvider"
    by (simp add: demoProviderReversed_def)
  have tr: "resolve (fileSystem demoProvider) ''/ws/templates'' = Some demoTemplates"
    by code_simp
  have st: "\<forall>dir \<in> set (getTemplateDirectories demoProvider).
              \<forall>n. resolve (fileSystem demoProvider) dir = Some n \<longrightarrow> statable n"
    using rd by (simp add: d1 tr)
  from T [where ?st3.0 = demoProviderReversed]
  have "distinctNames (fileSystem demoProvider)
        \<and> sameEntries (fileSystem demoProvider) (fileSystem demoProviderReversed)
        \<and> workspaceRoot demoProviderReversed = workspaceRoot demoProvider
        \<and> vscodeSettings demoProviderReversed = vscodeSettings demoProvider
        \<and> (\<forall>dir \<in> set (getTemplateDirectories demoProvider).
              \<forall>n. resolve (fileSystem demoProvider) dir = Some n \<longrightarrow> statable n)
      \<longrightarrow> set (getAvailableTemplates demoProviderReversed) = set (getAvailableTemplates demoProvider)"
    by (rule conjunct2 [OF conjunct2 [OF conjunct2 [OF conjunct2]]])
  then have p: "set (getAvailableTemplates demoProviderReversed) = set (getAvailableTemplates demoProvider)"
    using dn sf w3 v3 st by blast
  from w f d d1 s h g rd se o dn sf p show ?thesis by (intro conjI)
qed

text \<open>
  C8 as stated fails where a \<^verbatim>\<open>statSync\<close> throws: the entry ends the scan of its
  directory, so a template enumerated before a dangling link is found and the same
  template enumerated after it is not.
\<close>

theorem scan_order_counterexample:
  "sameEntries (fileSystem demoProviderDangling) (fileSystem demoProviderDanglingReversed)
   \<and> vscodeSettings demoProviderDanglingReversed = vscodeSettings demoProviderDangling
   \<and> workspaceRoot demoProviderDanglingReversed = workspaceRoot demoProviderDangling
   \<and> getAvailableTemplates demoProviderDangling
       = [\<lparr>name = ''a'', directory = ''templates'', fullPath = ''/ws/templates/a.hbs''\<rparr>]
   \<and> getAvailableTemplates demoProviderDanglingReversed = []"
proof -
  have "sameEntries demoDangling demoDanglingReversed"
    unfolding demoDangling_def demoDanglingReversed_def
    by (rule sameEntries.sameDir) (auto intro: sameEntries.intros)
  then have "sameEntries (Dir [(''templates'', demoDangling)]) (Dir [(''templates'', demoDanglingReversed)])"
    by (intro sameEntries.sameDir) simp_all
  then have s: "sameEntries (fileSystem demoProviderDangling) (fileSystem demoProviderDanglingReversed)"
    unfolding demoProviderDangling_def demoProviderDanglingReversed_def
    by (simp, intro sameEntries.sameDir) simp_all
  have v: "vscodeSettings demoProviderDanglingReversed = vscodeSettings demoProviderDangling"
    by (simp add: demoProviderDangling_def demoProviderDanglingReversed_def)
  have w: "workspaceRoot demoProviderDanglingReversed = workspaceRoot demoProviderDangling"
    by (simp add: demoProviderDangling_def demoProviderDanglingReversed_def)
  have a: "getAvailableTemplates demoProviderDangling
       = [\<lparr>name = ''a'', directory = ''templates'', fullPath = ''/ws/templates/a.hbs''\<rparr>]"
    by code_simp
  have b: "getAvailableTemplates demoProviderDanglingReversed = []"
    by code_simp
  from s v w a b show ?thesis by (intro conjI)
qed

end
